theory Spec2Isabelle
  imports Main
begin

section \<open>Location CRUD handlers of \<open>shared_code/location_crud.py\<close>\<close>

subsection \<open>JSON values and the Python operations the handlers apply to them\<close>

text \<open>
  A decoded JSON value. A Python \<open>dict\<close> is an association list in insertion order
  (a decoded object has distinct keys); numbers are integers, since the handlers
  only test a number for zero and compare it for equality.
\<close>

datatype json =
    JNull
  | JBool bool
  | JInt int
  | JStr string
  | JArr "json list"
  | JObj "(string \<times> json) list"

datatype py_error =
    ValueError
  | KeyError
  | TypeError
  | AttributeError
  | CosmosResourceExistsError
  | CosmosResourceNotFoundError
  | CosmosHttpResponseError
  | OtherError

text \<open>\<open>raising r c k\<close>: the statement \<open>r\<close> either raises, which leaves the
  \<open>try\<close> block with the store as it is, or yields a value the rest of the block
  \<open>k\<close> goes on with.\<close>

definition raising :: "py_error + 'a \<Rightarrow> 's \<Rightarrow> ('a \<Rightarrow> (py_error + 'r) \<times> 's) \<Rightarrow> (py_error + 'r) \<times> 's" where
  "raising r c k = (case r of Inl e \<Rightarrow> (Inl e, c) | Inr x \<Rightarrow> k x)"

definition and_then :: "py_error + 'a \<Rightarrow> ('a \<Rightarrow> py_error + 'b) \<Rightarrow> py_error + 'b" where
  "and_then r k = (case r of Inl e \<Rightarrow> Inl e | Inr x \<Rightarrow> k x)"

text \<open>Truth value of an object: \<open>None\<close>, \<open>False\<close>, zero and empty containers are false.\<close>

fun py_truthy :: "json \<Rightarrow> bool" where
  "py_truthy JNull = False"
| "py_truthy (JBool b) = b"
| "py_truthy (JInt n) = (n \<noteq> 0)"
| "py_truthy (JStr s) = (s \<noteq> [])"
| "py_truthy (JArr xs) = (xs \<noteq> [])"
| "py_truthy (JObj kv) = (kv \<noteq> [])"

fun is_dict :: "json \<Rightarrow> bool" where
  "is_dict (JObj kv) = True"
| "is_dict _ = False"

fun starts_with :: "string \<Rightarrow> string \<Rightarrow> bool" where
  "starts_with s [] = True"
| "starts_with [] (p # ps) = False"
| "starts_with (c # s) (p # ps) = (c = p \<and> starts_with s ps)"

fun str_contains :: "string \<Rightarrow> string \<Rightarrow> bool" where
  "str_contains [] p = (p = [])"
| "str_contains (c # s) p = (starts_with (c # s) p \<or> str_contains s p)"

text \<open>\<open>key in x\<close> for a string \<open>key\<close>: a key of a dict, an element of a list, a
  substring of a string; any other operand raises \<open>TypeError\<close>.\<close>

fun py_in :: "string \<Rightarrow> json \<Rightarrow> py_error + bool" where
  "py_in key (JObj kv) = Inr (key \<in> set (map fst kv))"
| "py_in key (JArr xs) = Inr (JStr key \<in> set xs)"
| "py_in key (JStr s) = Inr (str_contains s key)"
| "py_in key _ = Inl TypeError"

text \<open>\<open>x[key]\<close> for a string \<open>key\<close>: only a dict can be subscripted by a string.\<close>

fun py_getitem :: "json \<Rightarrow> string \<Rightarrow> py_error + json" where
  "py_getitem (JObj kv) key = (case map_of kv key of None \<Rightarrow> Inl KeyError | Some v \<Rightarrow> Inr v)"
| "py_getitem _ key = Inl TypeError"

text \<open>\<open>x.get(key)\<close>: a dict method, \<open>None\<close> for a missing key.\<close>

definition dict_get :: "(string \<times> json) list \<Rightarrow> string \<Rightarrow> json" where
  "dict_get kv key = (case map_of kv key of None \<Rightarrow> JNull | Some v \<Rightarrow> v)"

fun py_get :: "json \<Rightarrow> string \<Rightarrow> py_error + json" where
  "py_get (JObj kv) key = Inr (dict_get kv key)"
| "py_get _ key = Inl AttributeError"

text \<open>\<open>d[key] = v\<close> on a dict: an existing key keeps its place, a new key goes last.\<close>

fun dict_set :: "(string \<times> json) list \<Rightarrow> string \<Rightarrow> json \<Rightarrow> (string \<times> json) list" where
  "dict_set [] key v = [(key, v)]"
| "dict_set ((k, w) # kv) key v = (if k = key then (key, v) # kv else (k, w) # dict_set kv key v)"

fun py_setitem :: "json \<Rightarrow> string \<Rightarrow> json \<Rightarrow> py_error + json" where
  "py_setitem (JObj kv) key v = Inr (JObj (dict_set kv key v))"
| "py_setitem _ key v = Inl TypeError"

text \<open>\<open>for x in v\<close>: the elements of a list, the keys of a dict, the characters of a
  string; anything else is not iterable.\<close>

fun py_iter :: "json \<Rightarrow> py_error + json list" where
  "py_iter (JArr xs) = Inr xs"
| "py_iter (JObj kv) = Inr (map (\<lambda>p. JStr (fst p)) kv)"
| "py_iter (JStr s) = Inr (map (\<lambda>c. JStr [c]) s)"
| "py_iter _ = Inl TypeError"

definition sq :: string where
  "sq = [CHR 0x27]"

text \<open>\<open>str\<close> of a list of the handler's own field names, as the f-string prints it.\<close>

fun join_names :: "string list \<Rightarrow> string" where
  "join_names [] = []"
| "join_names [f] = sq @ f @ sq"
| "join_names (f # g # fs) = sq @ f @ sq @ '', '' @ join_names (g # fs)"

definition str_of_names :: "string list \<Rightarrow> string" where
  "str_of_names fs = ''['' @ join_names fs @ '']''"

subsection \<open>What the handlers are given: library functions, the request, the store\<close>

datatype validation = Valid | ValidationError string | Raises py_error

text \<open>
  The library calls whose results the module does not compute itself:
  \<open>uuid4 k\<close> is \<open>str(uuid.uuid4())\<close> at the \<open>k\<close>-th call of one invocation,
  \<open>jsonschema_validate instance schema\<close> is the outcome of \<open>jsonschema.validate\<close>
  (with \<open>str(ve)\<close> of the validation error), and \<open>py_str\<close> is \<open>str\<close> of a value
  that is not a string, as an f-string prints it.
\<close>

record pylib =
  uuid4 :: "nat \<Rightarrow> string"
  jsonschema_validate :: "json \<Rightarrow> json \<Rightarrow> validation"
  py_str :: "json \<Rightarrow> string"

definition fmt :: "pylib \<Rightarrow> json \<Rightarrow> string" where
  "fmt lib v = (case v of JStr s \<Rightarrow> s | _ \<Rightarrow> py_str lib v)"

text \<open>The request: its method, its query parameters, and its body as \<open>get_json\<close>
  decodes it (\<open>None\<close> when the body is not JSON and \<open>get_json\<close> raises).\<close>

record request =
  "method" :: string
  params :: "(string \<times> string) list"
  json_body :: "json option"

definition get_json :: "request \<Rightarrow> py_error + json" where
  "get_json req = (case json_body req of None \<Rightarrow> Inl ValueError | Some b \<Rightarrow> Inr b)"

definition params_get :: "(string \<times> string) list \<Rightarrow> string \<Rightarrow> json" where
  "params_get ps key = (case map_of ps key of None \<Rightarrow> JNull | Some v \<Rightarrow> JStr v)"

record response =
  status_code :: int
  body :: json

definition error_body :: "string \<Rightarrow> json" where
  "error_body msg = JObj [(''error'', JStr msg)]"

text \<open>
  Modelled from the spec: the store proxy \<open>LocationsContainerProxy\<close> is an external
  collaborator (sections 6 and 9: \<open>query_items\<close>, \<open>create_item\<close>, \<open>replace_item\<close>,
  \<open>delete_item\<close>; an in-memory implementation satisfies the interface). The container
  holds its documents in insertion order and is partitioned by \<open>location_id\<close>; a
  document is identified by its \<open>id\<close> within its partition. \<open>mutations\<close> records
  every create, replace and delete call issued, whether or not it succeeds; a call
  that raises changes no document, and a query does not raise. The two query texts
  the module sends are \<open>SELECT * FROM c\<close> and
  \<open>SELECT * FROM c WHERE c.<field> = @param\<close>; a document matches the second when
  it has the field with a value equal to the parameter.
\<close>

datatype store_call =
    CreateItem json
  | ReplaceItem json json
  | DeleteItem json json

record container =
  docs :: "json list"
  mutations :: "store_call list"

datatype query = SelectAll | SelectWhere string json

definition doc_field :: "json \<Rightarrow> string \<Rightarrow> json option" where
  "doc_field d key = (case d of JObj kv \<Rightarrow> map_of kv key | _ \<Rightarrow> None)"

fun query_items :: "container \<Rightarrow> query \<Rightarrow> json list" where
  "query_items c SelectAll = docs c"
| "query_items c (SelectWhere field v) = filter (\<lambda>d. doc_field d field = Some v) (docs c)"

definition same_item :: "json option \<Rightarrow> json option \<Rightarrow> json \<Rightarrow> bool" where
  "same_item item_id pk d = (doc_field d ''id'' = item_id \<and> doc_field d ''location_id'' = pk)"

definition create_item :: "json \<Rightarrow> container \<Rightarrow> (py_error + unit) \<times> container" where
  "create_item doc c =
    (let c1 = c\<lparr>mutations := mutations c @ [CreateItem doc]\<rparr> in
     case doc_field doc ''id'' of
       None \<Rightarrow> (Inl CosmosHttpResponseError, c1)
     | Some i \<Rightarrow>
         if list_ex (same_item (Some i) (doc_field doc ''location_id'')) (docs c)
         then (Inl CosmosResourceExistsError, c1)
         else (Inr (), c1\<lparr>docs := docs c @ [doc]\<rparr>))"

definition replace_item :: "json \<Rightarrow> json \<Rightarrow> container \<Rightarrow> (py_error + unit) \<times> container" where
  "replace_item item new_body c =
    (let c1 = c\<lparr>mutations := mutations c @ [ReplaceItem item new_body]\<rparr> in
     case doc_field item ''id'' of
       None \<Rightarrow> (Inl CosmosHttpResponseError, c1)
     | Some i \<Rightarrow>
         if list_ex (same_item (Some i) (doc_field new_body ''location_id'')) (docs c)
         then (Inr (), c1\<lparr>docs :=
                 map (\<lambda>d. if same_item (Some i) (doc_field new_body ''location_id'') d
                           then new_body else d) (docs c)\<rparr>)
         else (Inl CosmosResourceNotFoundError, c1))"

definition delete_item :: "json \<Rightarrow> json \<Rightarrow> container \<Rightarrow> (py_error + unit) \<times> container" where
  "delete_item item partition_key c =
    (let c1 = c\<lparr>mutations := mutations c @ [DeleteItem item partition_key]\<rparr> in
     if list_ex (same_item (Some item) (Some partition_key)) (docs c)
     then (Inr (), c1\<lparr>docs :=
             filter (\<lambda>d. \<not> same_item (Some item) (Some partition_key) d) (docs c)\<rparr>)
     else (Inl CosmosResourceNotFoundError, c1))"

subsection \<open>\<open>create_location\<close>\<close>

text \<open>\<open>[f for f in required_fields if f not in body]\<close>\<close>

fun missing_fields :: "string list \<Rightarrow> json \<Rightarrow> py_error + string list" where
  "missing_fields [] b = Inr []"
| "missing_fields (f # fs) b =
     and_then (py_in f b) (\<lambda>present.
     and_then (missing_fields fs b) (\<lambda>rest.
       Inr (if present then rest else f # rest)))"

text \<open>The loop over \<open>body["rooms"]\<close> of lines 50-55: \<open>True\<close> when it returns the 400
  response at some room, \<open>False\<close> when it runs to its end.\<close>

fun room_lacks_field :: "json list \<Rightarrow> py_error + bool" where
  "room_lacks_field [] = Inr False"
| "room_lacks_field (room # rest) =
     and_then (py_in ''room_name'' room) (\<lambda>has_name.
       if \<not> has_name then Inr True
       else and_then (py_in ''capacity'' room) (\<lambda>has_capacity.
         if \<not> has_capacity then Inr True else room_lacks_field rest))"

text \<open>The loop of lines 96-97; the \<open>k\<close>-th call of \<open>uuid4\<close> comes first, then the
  assignment, which raises unless the room is a dict.\<close>

fun set_room_ids :: "pylib \<Rightarrow> json list \<Rightarrow> nat \<Rightarrow> py_error + json list" where
  "set_room_ids lib [] k = Inr []"
| "set_room_ids lib (room # rest) k =
     and_then (py_setitem room ''room_id'' (JStr (uuid4 lib k))) (\<lambda>room'.
     and_then (set_room_ids lib rest (Suc k)) (\<lambda>rest'.
       Inr (room' # rest')))"

text \<open>\<open>rooms\<close> after the loop: a list holds the updated rooms; the keys of a dict and
  the characters of a string are strings, so the loop ends there only when there
  are none.\<close>

definition assign_room_ids :: "pylib \<Rightarrow> json \<Rightarrow> py_error + json" where
  "assign_room_ids lib rooms =
     (case rooms of
        JArr xs \<Rightarrow> and_then (set_room_ids lib xs 1) (\<lambda>xs'. Inr (JArr xs'))
      | _ \<Rightarrow> and_then (py_iter rooms) (\<lambda>xs.
               and_then (set_room_ids lib xs 1) (\<lambda>xs'. Inr rooms)))"

definition rooms_count :: "json \<Rightarrow> nat" where
  "rooms_count rooms = (case py_iter rooms of Inl e \<Rightarrow> 0 | Inr xs \<Rightarrow> length xs)"

text \<open>The loop of lines 108-110 over \<open>body.items()\<close>; \<open>location_schema["properties"]\<close>
  is evaluated only for a key that is not in \<open>new_doc\<close>.\<close>

fun add_fields :: "json \<Rightarrow> (string \<times> json) list \<Rightarrow> (string \<times> json) list \<Rightarrow> py_error + (string \<times> json) list" where
  "add_fields location_schema [] new_doc = Inr new_doc"
| "add_fields location_schema ((key, val) # items) new_doc =
     (if key \<in> set (map fst new_doc) then add_fields location_schema items new_doc
      else and_then (py_getitem location_schema ''properties'') (\<lambda>props.
           and_then (py_in key props) (\<lambda>declared.
             add_fields location_schema items
               (if declared then dict_set new_doc key val else new_doc))))"

definition body_items :: "json \<Rightarrow> py_error + (string \<times> json) list" where
  "body_items b = (case b of JObj kv \<Rightarrow> Inr kv | _ \<Rightarrow> Inl AttributeError)"

definition create_location_try ::
    "pylib \<Rightarrow> request \<Rightarrow> json \<Rightarrow> container \<Rightarrow> (py_error + response) \<times> container" where
  "create_location_try lib req location_schema c =
    raising (get_json req) c (\<lambda>body0.
    raising (missing_fields [''location_name'', ''rooms''] body0) c (\<lambda>missing.
    if missing \<noteq> [] then
      (Inr \<lparr>status_code = 400,
            body = error_body (''Missing mandatory field(s): '' @ str_of_names missing)\<rparr>, c)
    else
    raising (py_getitem body0 ''rooms'') c (\<lambda>rooms0.
    raising (py_iter rooms0) c (\<lambda>room_list.
    raising (room_lacks_field room_list) c (\<lambda>lacking.
    if lacking then
      (Inr \<lparr>status_code = 400,
            body = error_body (''Missing mandatory field '' @ sq @ ''room_name'' @ sq @ '' in rooms.'')\<rparr>, c)
    else
    raising (py_getitem body0 ''location_name'') c (\<lambda>loc_name.
    let existing_docs = query_items c (SelectWhere ''location_name'' loc_name) in
    if existing_docs \<noteq> [] then
      (Inr \<lparr>status_code = 400,
            body = error_body (''Location with name '' @ sq @ fmt lib loc_name @ sq @ '' already exists.'')\<rparr>, c)
    else
    (case jsonschema_validate lib body0 location_schema of
       ValidationError ve \<Rightarrow>
         (Inr \<lparr>status_code = 400,
               body = error_body (''JSON schema validation error: '' @ ve)\<rparr>, c)
     | Raises e \<Rightarrow> (Inl e, c)
     | Valid \<Rightarrow>
         let location_id = uuid4 lib 0 in
         raising (assign_room_ids lib rooms0) c (\<lambda>rooms.
         raising (py_setitem body0 ''rooms'' rooms) c (\<lambda>body1.
         let doc_id = uuid4 lib (Suc (rooms_count rooms0)) in
         raising (py_getitem body1 ''location_name'') c (\<lambda>name.
         raising (py_getitem body1 ''events_ids'') c (\<lambda>events_ids.
         let new_doc = [(''id'', JStr doc_id),
                        (''location_id'', JStr location_id),
                        (''location_name'', name),
                        (''events_ids'', events_ids),
                        (''rooms'', rooms)] in
         raising (body_items body1) c (\<lambda>items.
         raising (add_fields location_schema items new_doc) c (\<lambda>new_doc'.
         (case create_item (JObj new_doc') c of
            (Inl e, c') \<Rightarrow> (Inl e, c')
          | (Inr u, c') \<Rightarrow>
              (Inr \<lparr>status_code = 202,
                    body = JObj [(''message'', JStr ''Location created successfully.''),
                                 (''location_id'', JStr location_id)]\<rparr>, c')))))))))))))))"

definition create_location ::
    "pylib \<Rightarrow> request \<Rightarrow> json \<Rightarrow> container \<Rightarrow> response \<times> container" where
  "create_location lib req location_schema c =
    (case create_location_try lib req location_schema c of
       (Inl e, c') \<Rightarrow> (\<lparr>status_code = 500, body = error_body ''Internal Server Error''\<rparr>, c')
     | (Inr r, c') \<Rightarrow> (r, c'))"

subsection \<open>\<open>delete_location\<close>\<close>

definition delete_location_try ::
    "pylib \<Rightarrow> request \<Rightarrow> container \<Rightarrow> (py_error + response) \<times> container" where
  "delete_location_try lib req c =
    raising (if method req = ''POST''
             then and_then (get_json req) (\<lambda>body0. py_get body0 ''location_id'')
             else Inr (params_get (params req) ''location_id'')) c (\<lambda>location_id.
    if \<not> py_truthy location_id then
      (Inr \<lparr>status_code = 400,
            body = error_body (''Missing '' @ sq @ ''location_id'' @ sq @ '' parameter'')\<rparr>, c)
    else
    (case query_items c (SelectWhere ''location_id'' location_id) of
       [] \<Rightarrow>
         (Inr \<lparr>status_code = 404,
               body = error_body (''Location '' @ sq @ fmt lib location_id @ sq @ '' not found'')\<rparr>, c)
     | doc_to_delete # others \<Rightarrow>
         raising (py_getitem doc_to_delete ''id'') c (\<lambda>item_id.
         raising (py_getitem doc_to_delete ''location_id'') c (\<lambda>partition_key.
         (case delete_item item_id partition_key c of
            (Inl e, c') \<Rightarrow> (Inl e, c')
          | (Inr u, c') \<Rightarrow>
              (Inr \<lparr>status_code = 200,
                    body = JObj [(''message'',
                      JStr (''Location '' @ sq @ fmt lib location_id @ sq @ '' deleted successfully.''))]\<rparr>,
               c'))))))"

definition delete_location ::
    "pylib \<Rightarrow> request \<Rightarrow> container \<Rightarrow> response \<times> container" where
  "delete_location lib req c =
    (case delete_location_try lib req c of
       (Inl e, c') \<Rightarrow> (\<lparr>status_code = 500, body = error_body ''Internal Server Error''\<rparr>, c')
     | (Inr r, c') \<Rightarrow> (r, c'))"

subsection \<open>\<open>get_location\<close>\<close>

text \<open>The function never reads its \<open>location_schema\<close> parameter, which is left out.\<close>

definition get_location_try ::
    "pylib \<Rightarrow> request \<Rightarrow> container \<Rightarrow> (py_error + response) \<times> container" where
  "get_location_try lib req c =
    raising (if method req = ''GET''
             then Inr (if params req \<noteq> [] then params_get (params req) ''location_id'' else JNull)
             else and_then (get_json req) (\<lambda>j.
                  and_then (if py_truthy j then get_json req else Inr (JObj [])) (\<lambda>body0.
                    py_get body0 ''location_id''))) c (\<lambda>location_id.
    if py_truthy location_id then
      (case query_items c (SelectWhere ''location_id'' location_id) of
         [] \<Rightarrow>
           (Inr \<lparr>status_code = 404,
                 body = error_body (''Location '' @ sq @ fmt lib location_id @ sq @ '' not found.'')\<rparr>, c)
       | doc # others \<Rightarrow>
           (Inr \<lparr>status_code = 200, body = JObj [(''location'', doc)]\<rparr>, c))
    else
      (Inr \<lparr>status_code = 200,
            body = JObj [(''locations'', JArr (query_items c SelectAll))]\<rparr>, c))"

definition get_location ::
    "pylib \<Rightarrow> request \<Rightarrow> container \<Rightarrow> response \<times> container" where
  "get_location lib req c =
    (case get_location_try lib req c of
       (Inl e, c') \<Rightarrow> (\<lparr>status_code = 500, body = error_body ''Internal server error''\<rparr>, c')
     | (Inr r, c') \<Rightarrow> (r, c'))"

subsection \<open>\<open>edit_location\<close>\<close>

definition updatable_keys :: "string list" where
  "updatable_keys = [''location_id'', ''location_name'', ''events_ids'', ''rooms'']"

text \<open>The loop of lines 294-297, returning the document and \<open>updated_any_field\<close>.\<close>

fun merge_updates :: "string list \<Rightarrow> json \<Rightarrow> json \<Rightarrow> bool \<Rightarrow> py_error + (json \<times> bool)" where
  "merge_updates [] body0 location_doc updated_any_field = Inr (location_doc, updated_any_field)"
| "merge_updates (key # keys) body0 location_doc updated_any_field =
     and_then (py_in key body0) (\<lambda>present.
       if present then
         and_then (py_getitem body0 key) (\<lambda>v.
         and_then (py_setitem location_doc key v) (\<lambda>location_doc'.
           merge_updates keys body0 location_doc' True))
       else merge_updates keys body0 location_doc updated_any_field)"

definition edit_location_try ::
    "pylib \<Rightarrow> request \<Rightarrow> json \<Rightarrow> container \<Rightarrow> (py_error + response) \<times> container" where
  "edit_location_try lib req location_schema c =
    raising (get_json req) c (\<lambda>body0.
    if \<not> py_truthy body0 \<or> \<not> is_dict body0 then
      (Inr \<lparr>status_code = 400,
            body = error_body ''Request body must be a valid JSON object.''\<rparr>, c)
    else
    raising (py_get body0 ''location_id'') c (\<lambda>location_id.
    if \<not> py_truthy location_id then
      (Inr \<lparr>status_code = 400,
            body = error_body (''Missing '' @ sq @ ''location_id'' @ sq
                                @ '' field to identify the document to edit.'')\<rparr>, c)
    else
    (case query_items c (SelectWhere ''location_id'' location_id) of
       [] \<Rightarrow>
         (Inr \<lparr>status_code = 404,
               body = error_body (''Location '' @ sq @ fmt lib location_id @ sq
                                   @ '' not found, cannot edit.'')\<rparr>, c)
     | doc # others \<Rightarrow>
         raising (merge_updates updatable_keys body0 doc False) c (\<lambda>(location_doc, updated_any_field).
         if \<not> updated_any_field then
           (Inr \<lparr>status_code = 400,
                 body = error_body ''No updatable fields specified in request body.''\<rparr>, c)
         else
         (case jsonschema_validate lib location_doc location_schema of
            ValidationError ve \<Rightarrow>
              (Inr \<lparr>status_code = 400,
                    body = error_body (''JSON schema validation error: '' @ ve)\<rparr>, c)
          | Raises e \<Rightarrow> (Inl e, c)
          | Valid \<Rightarrow>
              (case replace_item location_doc location_doc c of
                 (Inl e, c') \<Rightarrow> (Inl e, c')
               | (Inr u, c') \<Rightarrow>
                   (Inr \<lparr>status_code = 200,
                         body = JObj [(''message'',
                                  JStr (''Location '' @ sq @ fmt lib location_id @ sq
                                        @ '' updated successfully.'')),
                                 (''location'', location_doc)]\<rparr>, c')))))))"

definition edit_location ::
    "pylib \<Rightarrow> request \<Rightarrow> json \<Rightarrow> container \<Rightarrow> response \<times> container" where
  "edit_location lib req location_schema c =
    (case edit_location_try lib req location_schema c of
       (Inl e, c') \<Rightarrow> (\<lparr>status_code = 500, body = error_body ''Internal Server Error''\<rparr>, c')
     | (Inr r, c') \<Rightarrow> (r, c'))"

subsection \<open>Conditions the properties are stated under\<close>

text \<open>The room check of lines 50-55 runs without raising on \<open>rooms\<close>: \<open>rooms\<close> can
  be iterated, and every room the loop reaches supports \<open>in\<close>. An array of objects
  always qualifies.\<close>

definition rooms_checkable :: "json \<Rightarrow> bool" where
  "rooms_checkable rooms =
     (case py_iter rooms of
        Inl e \<Rightarrow> False
      | Inr room_list \<Rightarrow> (case room_lacks_field room_list of Inl e \<Rightarrow> False | Inr b \<Rightarrow> True))"

text \<open>The store holds location documents as the data model has them: each has the
  \<open>id\<close> the store gives every document, and a \<open>location_id\<close> belongs to one
  document only, so that stored documents with the same \<open>location_id\<close> have the same \<open>id\<close>.\<close>

definition store_wf :: "container \<Rightarrow> bool" where
  "store_wf c =
     (list_all (\<lambda>d. doc_field d ''id'' \<noteq> None) (docs c)
      \<and> list_all (\<lambda>d. list_all (\<lambda>d'. doc_field d ''location_id'' \<noteq> None
                                  \<and> doc_field d ''location_id'' = doc_field d' ''location_id''
                                \<longrightarrow> doc_field d ''id'' = doc_field d' ''id'') (docs c)) (docs c))"

subsection \<open>Concrete inputs\<close>

text \<open>A library whose validator accepts every instance (as \<open>jsonschema\<close> does for a
  schema that constrains nothing), a schema declaring the three body properties,
  and a store holding one location.\<close>

definition example_lib :: pylib where
  "example_lib = \<lparr>uuid4 = (\<lambda>k. ''uuid-'' @ replicate k CHR ''i''),
                   jsonschema_validate = (\<lambda>instance schema. Valid),
                   py_str = (\<lambda>v. ''<value>'')\<rparr>"

definition example_schema :: json where
  "example_schema =
     JObj [(''properties'',
            JObj [(''location_name'', JObj []), (''rooms'', JObj []), (''events_ids'', JObj [])])]"

definition hall_doc :: json where
  "hall_doc = JObj [(''id'', JStr ''item-1''), (''location_id'', JStr ''loc-1''),
                    (''location_name'', JStr ''Hall A''), (''events_ids'', JArr []),
                    (''rooms'', JArr [JObj [(''room_name'', JStr ''R1''), (''capacity'', JInt 50),
                                            (''room_id'', JStr ''room-1'')]])]"

definition hall_store :: container where
  "hall_store = \<lparr>docs = [hall_doc], mutations = []\<rparr>"

definition empty_store :: container where
  "empty_store = \<lparr>docs = [], mutations = []\<rparr>"

definition post :: "json \<Rightarrow> request" where
  "post b = \<lparr>method = ''POST'', params = [], json_body = Some b\<rparr>"

definition get_with :: "(string \<times> string) list \<Rightarrow> request" where
  "get_with ps = \<lparr>method = ''GET'', params = ps, json_body = None\<rparr>"

section \<open>Properties\<close>

lemma raising_simps [simp]:
  "raising (Inl e) c k = (Inl e, c)"
  "raising (Inr x) c k = k x"
  by (simp_all add: raising_def)

lemma and_then_simps [simp]:
  "and_then (Inl e) k = Inl e"
  "and_then (Inr x) k = k x"
  by (simp_all add: and_then_def)

lemmas example_defs =
  example_lib_def example_schema_def hall_doc_def hall_store_def empty_store_def
  post_def get_with_def

lemma find_filter: "find P xs = (case filter P xs of [] \<Rightarrow> None | x # ys \<Rightarrow> Some x)"
  by (induction xs) auto

subsection \<open>Get\<close>





text \<open>
  C10: a supplied \<open>location_id\<close> equal to the empty string counts as absent.
  \<open>get_location\<close> answers 200 with the whole collection under \<open>locations\<close> (so never
  404), and \<open>delete_location\<close> answers 400 with the missing-parameter message (so
  never 404); neither touches the store.
\<close>

theorem empty_location_id_is_absent:
  "((method req = ''GET'' \<and> map_of (params req) ''location_id'' = Some []
      \<or> method req \<noteq> ''GET'' \<and> json_body req = Some (JObj kv)
          \<and> map_of kv ''location_id'' = Some (JStr []))
    \<longrightarrow> get_location lib req c =
          (\<lparr>status_code = 200, body = JObj [(''locations'', JArr (docs c))]\<rparr>, c))
   \<and> ((method req \<noteq> ''POST'' \<and> map_of (params req) ''location_id'' = Some []
        \<or> method req = ''POST'' \<and> json_body req = Some (JObj kv)
            \<and> map_of kv ''location_id'' = Some (JStr []))
    \<longrightarrow> delete_location lib req c =
          (\<lparr>status_code = 400, body = error_body ''Missing 'location_id' parameter''\<rparr>, c))"
  by (auto simp: get_location_def get_location_try_def delete_location_def delete_location_try_def
        params_get_def dict_get_def get_json_def sq_def)

theorem empty_location_id_is_absent_witness:
  "get_location example_lib (get_with [(''location_id'', [])]) hall_store
     = (\<lparr>status_code = 200, body = JObj [(''locations'', JArr [hall_doc])]\<rparr>, hall_store)
   \<and> get_location example_lib (post (JObj [(''location_id'', JStr [])])) hall_store
     = (\<lparr>status_code = 200, body = JObj [(''locations'', JArr [hall_doc])]\<rparr>, hall_store)
   \<and> delete_location example_lib (get_with [(''location_id'', [])]) hall_store
     = (\<lparr>status_code = 400, body = error_body ''Missing 'location_id' parameter''\<rparr>, hall_store)
   \<and> delete_location example_lib (post (JObj [(''location_id'', JStr [])])) hall_store
     = (\<lparr>status_code = 400, body = error_body ''Missing 'location_id' parameter''\<rparr>, hall_store)"
  using empty_location_id_is_absent [where req = "get_with [(''location_id'', [])]"
      and c = hall_store and lib = example_lib]
    empty_location_id_is_absent [where req = "post (JObj [(''location_id'', JStr [])])"
      and kv = "[(''location_id'', JStr [])]" and c = hall_store and lib = example_lib]
  by (simp add: example_defs)

subsection \<open>Create: the room check\<close>

text \<open>
  C3: a body with \<open>location_name\<close> and one room that has \<open>room_name\<close> but no
  \<open>capacity\<close>. The answer is 400, for every library, schema and store, but its
  message is the fixed text of line 54, which names \<open>room_name\<close> (the field the
  room has) and does not mention \<open>capacity\<close> (the field it lacks).
\<close>

theorem create_location_missing_capacity_message:
  "create_location lib
     (post (JObj [(''location_name'', JStr ''Hall B''), (''events_ids'', JArr []),
                  (''rooms'', JArr [JObj [(''room_name'', JStr ''R1'')]])]))
     location_schema c
   = (\<lparr>status_code = 400,
       body = error_body ''Missing mandatory field 'room_name' in rooms.''\<rparr>, c)
   \<and> \<not> str_contains ''Missing mandatory field 'room_name' in rooms.'' ''capacity''"
  by (simp add: create_location_def create_location_try_def post_def get_json_def sq_def)

subsection \<open>Edit: a body with none of the updatable keys\<close>

text \<open>
  C6, as stated, fails on the message: a body whose only key is \<open>foo\<close> is answered
  400 with the missing-\<open>location_id\<close> message of line 269, not with the
  no-updatable-fields message of line 302.
\<close>

theorem edit_location_unknown_keys_counterexample:
  "set (map fst [(''foo'', JInt 1)]) \<inter> set updatable_keys = {}
   \<and> edit_location example_lib (post (JObj [(''foo'', JInt 1)])) example_schema hall_store
     = (\<lparr>status_code = 400,
         body = error_body ''Missing 'location_id' field to identify the document to edit.''\<rparr>,
        hall_store)
   \<and> body (fst (edit_location example_lib (post (JObj [(''foo'', JInt 1)])) example_schema hall_store))
     \<noteq> error_body ''No updatable fields specified in request body.''"
  by (simp add: edit_location_def edit_location_try_def post_def get_json_def dict_get_def sq_def
        updatable_keys_def error_body_def)

text \<open>
  C6, amended: for every Edit request whose body is a JSON object with none of the
  keys \<open>location_id\<close>, \<open>location_name\<close>, \<open>events_ids\<close>, \<open>rooms\<close>, \<open>edit_location\<close>
  returns 400 and the store is not modified; the error is the must-be-a-JSON-object
  message when the object is empty and the missing-\<open>location_id\<close> message otherwise.
\<close>

theorem edit_location_no_updatable_keys:
  assumes "json_body req = Some (JObj kv)"
    and "set (map fst kv) \<inter> set updatable_keys = {}"
  shows "edit_location lib req location_schema c =
     (\<lparr>status_code = 400,
       body = error_body (if kv = [] then ''Request body must be a valid JSON object.''
                          else ''Missing 'location_id' field to identify the document to edit.'')\<rparr>,
      c)"
proof -
  from assms(2) have "''location_id'' \<notin> set (map fst kv)"
    by (auto simp: updatable_keys_def)
  then have "map_of kv ''location_id'' = None"
    by (simp add: map_of_eq_None_iff)
  with assms(1) show ?thesis
    by (simp add: edit_location_def edit_location_try_def get_json_def dict_get_def sq_def)
qed

theorem edit_location_no_updatable_keys_witness:
  "edit_location example_lib (post (JObj [(''foo'', JInt 1)])) example_schema hall_store
     = (\<lparr>status_code = 400,
         body = error_body ''Missing 'location_id' field to identify the document to edit.''\<rparr>,
        hall_store)"
  using edit_location_no_updatable_keys [where req = "post (JObj [(''foo'', JInt 1)])"
      and kv = "[(''foo'', JInt 1)]" and lib = example_lib and location_schema = example_schema
      and c = hall_store]
  by (simp add: post_def updatable_keys_def)

subsection \<open>Delete\<close>

lemma delete_location_carried:
  assumes "method req = ''POST'' \<and> json_body req = Some (JObj kv) \<and> v = dict_get kv ''location_id''
     \<or> method req \<noteq> ''POST'' \<and> v = params_get (params req) ''location_id''"
  shows "delete_location_try lib req c =
    (if \<not> py_truthy v then
      (Inr \<lparr>status_code = 400,
            body = error_body ''Missing 'location_id' parameter''\<rparr>, c)
    else
    (case query_items c (SelectWhere ''location_id'' v) of
       [] \<Rightarrow>
         (Inr \<lparr>status_code = 404,
               body = error_body (''Location '' @ sq @ fmt lib v @ sq @ '' not found'')\<rparr>, c)
     | doc_to_delete # others \<Rightarrow>
         raising (py_getitem doc_to_delete ''id'') c (\<lambda>item_id.
         raising (py_getitem doc_to_delete ''location_id'') c (\<lambda>partition_key.
         (case delete_item item_id partition_key c of
            (Inl e, c') \<Rightarrow> (Inl e, c')
          | (Inr u, c') \<Rightarrow>
              (Inr \<lparr>status_code = 200,
                    body = JObj [(''message'',
                      JStr (''Location '' @ sq @ fmt lib v @ sq @ '' deleted successfully.''))]\<rparr>,
               c'))))))"
  using assms by (auto simp: delete_location_try_def get_json_def sq_def)

lemma getitem_doc_field: "doc_field d key = Some x \<Longrightarrow> py_getitem d key = Inr x"
  by (cases d) (auto simp: doc_field_def)

lemma delete_location_found:
  assumes carried: "method req = ''POST'' \<and> json_body req = Some (JObj kv) \<and> v = dict_get kv ''location_id''
     \<or> method req \<noteq> ''POST'' \<and> v = params_get (params req) ''location_id''"
    and "py_truthy v"
    and found: "find (\<lambda>d. doc_field d ''location_id'' = Some v) (docs c) = Some d"
    and id: "doc_field d ''id'' = Some i"
  shows "delete_location lib req c =
      (\<lparr>status_code = 200,
        body = JObj [(''message'',
                 JStr (''Location '' @ sq @ fmt lib v @ sq @ '' deleted successfully.''))]\<rparr>,
       \<lparr>docs = filter (\<lambda>d. \<not> same_item (Some i) (Some v) d) (docs c),
        mutations = mutations c @ [DeleteItem i v]\<rparr>)"
proof -
  from found have d: "d \<in> set (docs c)" "doc_field d ''location_id'' = Some v"
    by (auto simp: find_Some_iff)
  from found obtain others where q: "query_items c (SelectWhere ''location_id'' v) = d # others"
    by (auto simp: find_filter split: list.splits)
  have ex: "list_ex (same_item (Some i) (Some v)) (docs c)"
    using d id by (auto simp: list_ex_iff same_item_def)
  show ?thesis
    unfolding delete_location_def delete_location_carried [OF carried]
    using \<open>py_truthy v\<close> q ex d id
    by (simp add: getitem_doc_field delete_item_def)
qed


lemma delete_location_not_found:
  assumes carried: "method req = ''POST'' \<and> json_body req = Some (JObj kv) \<and> v = dict_get kv ''location_id''
     \<or> method req \<noteq> ''POST'' \<and> v = params_get (params req) ''location_id''"
    and "py_truthy v"
    and "find (\<lambda>d. doc_field d ''location_id'' = Some v) (docs c) = None"
  shows "delete_location lib req c =
      (\<lparr>status_code = 404,
        body = error_body (''Location '' @ sq @ fmt lib v @ sq @ '' not found'')\<rparr>, c)"
proof -
  from assms(3) have "query_items c (SelectWhere ''location_id'' v) = []"
    by (auto simp: find_filter split: list.splits)
  then show ?thesis
    unfolding delete_location_def delete_location_carried [OF carried]
    using \<open>py_truthy v\<close> by simp
qed

lemma store_wf_id:
  "store_wf c \<Longrightarrow> d \<in> set (docs c) \<Longrightarrow> \<exists>i. doc_field d ''id'' = Some i"
  unfolding store_wf_def list_all_iff by blast

lemma store_wf_same_id:
  "store_wf c \<Longrightarrow> d \<in> set (docs c) \<Longrightarrow> d' \<in> set (docs c)
   \<Longrightarrow> doc_field d ''location_id'' = Some v \<Longrightarrow> doc_field d' ''location_id'' = Some v
   \<Longrightarrow> doc_field d' ''id'' = doc_field d ''id''"
  unfolding store_wf_def list_all_iff by (metis option.distinct(1))

lemma delete_location_twice:
  assumes carried: "method req = ''POST'' \<and> json_body req = Some (JObj kv) \<and> v = dict_get kv ''location_id''
     \<or> method req \<noteq> ''POST'' \<and> v = params_get (params req) ''location_id''"
    and truthy: "py_truthy v"
    and stored: "\<exists>d\<in>set (docs c). doc_field d ''location_id'' = Some v"
    and wf: "store_wf c"
  shows "(case delete_location lib req c of (r1, c1) \<Rightarrow>
            (case delete_location lib req c1 of (r2, c2) \<Rightarrow>
               status_code r1 = 200 \<and> status_code r2 = 404 \<and> c2 = c1))"
proof -
  from stored obtain d where found: "find (\<lambda>d. doc_field d ''location_id'' = Some v) (docs c) = Some d"
    by (cases "find (\<lambda>d. doc_field d ''location_id'' = Some v) (docs c)") (auto simp: find_None_iff)
  then have d: "d \<in> set (docs c)" "doc_field d ''location_id'' = Some v"
    by (auto simp: find_Some_iff)
  from wf d obtain i where id: "doc_field d ''id'' = Some i"
    using store_wf_id by blast
  let ?c1 = "\<lparr>docs = filter (\<lambda>d. \<not> same_item (Some i) (Some v) d) (docs c),
              mutations = mutations c @ [DeleteItem i v]\<rparr>"
  have first: "delete_location lib req c =
      (\<lparr>status_code = 200,
        body = JObj [(''message'',
                 JStr (''Location '' @ sq @ fmt lib v @ sq @ '' deleted successfully.''))]\<rparr>, ?c1)"
    by (rule delete_location_found [OF carried truthy found id])
  have "\<forall>d'\<in>set (docs c). doc_field d' ''location_id'' = Some v \<longrightarrow> same_item (Some i) (Some v) d'"
    using store_wf_same_id [OF wf d(1) _ d(2)] id by (simp add: same_item_def)
  then have "find (\<lambda>d. doc_field d ''location_id'' = Some v) (docs ?c1) = None"
    by (auto simp: find_None_iff)
  then have second: "delete_location lib req ?c1 =
      (\<lparr>status_code = 404,
        body = error_body (''Location '' @ sq @ fmt lib v @ sq @ '' not found'')\<rparr>, ?c1)"
    by (rule delete_location_not_found [OF carried truthy])
  show ?thesis
    by (simp add: first second)
qed


text \<open>
  C5, as stated, fails: a POST request whose body is not a JSON object supplies no
  \<open>location_id\<close>, yet it is answered 500 and not 400. Without a JSON body
  \<open>get_json\<close> raises on line 140; with the body \<open>null\<close> or an array,
  \<open>body.get\<close> raises on line 141; line 178 turns either into the 500 response.
\<close>

theorem delete_location_post_without_object_counterexample:
  "delete_location example_lib \<lparr>method = ''POST'', params = [], json_body = None\<rparr> hall_store
     = (\<lparr>status_code = 500, body = error_body ''Internal Server Error''\<rparr>, hall_store)
   \<and> delete_location example_lib (post JNull) hall_store
     = (\<lparr>status_code = 500, body = error_body ''Internal Server Error''\<rparr>, hall_store)
   \<and> delete_location example_lib (post (JArr [])) hall_store
     = (\<lparr>status_code = 500, body = error_body ''Internal Server Error''\<rparr>, hall_store)"
  by (simp add: post_def delete_location_def delete_location_try_def get_json_def)

text \<open>
  C5, amended. Let the request be a POST request with a JSON object as body, or a
  request of another method, and let \<open>v\<close> be the \<open>location_id\<close> it carries: the
  body field for POST, the query parameter otherwise, \<open>None\<close> when there is none.
  A missing \<open>v\<close> (none, or empty) is answered 400. Otherwise, when no stored
  document has that \<open>location_id\<close>, the answer is 404 and the store is unchanged;
  when one has, the handler calls \<open>delete_item\<close> with the \<open>id\<close> of the first such
  document and \<open>v\<close> as partition key, the documents so identified are gone, and the
  answer is 200. In a store of location documents (\<open>store_wf\<close>), deleting the same
  \<open>location_id\<close> twice in a row therefore answers 200 and then 404, and the second
  call leaves the state the first one produced.
\<close>

theorem delete_location_contract:
  assumes carried:
    "method req = ''POST'' \<and> json_body req = Some (JObj kv) \<and> v = dict_get kv ''location_id''
     \<or> method req \<noteq> ''POST'' \<and> v = params_get (params req) ''location_id''"
  shows "(\<not> py_truthy v \<longrightarrow>
            delete_location lib req c =
              (\<lparr>status_code = 400, body = error_body ''Missing 'location_id' parameter''\<rparr>, c))
     \<and> (py_truthy v \<and> find (\<lambda>d. doc_field d ''location_id'' = Some v) (docs c) = None \<longrightarrow>
            delete_location lib req c =
              (\<lparr>status_code = 404,
                body = error_body (''Location '' @ sq @ fmt lib v @ sq @ '' not found'')\<rparr>, c))
     \<and> (py_truthy v \<and> find (\<lambda>d. doc_field d ''location_id'' = Some v) (docs c) = Some d
          \<and> doc_field d ''id'' = Some i \<longrightarrow>
            delete_location lib req c =
              (\<lparr>status_code = 200,
                body = JObj [(''message'',
                         JStr (''Location '' @ sq @ fmt lib v @ sq @ '' deleted successfully.''))]\<rparr>,
               \<lparr>docs = filter (\<lambda>d. \<not> same_item (Some i) (Some v) d) (docs c),
                mutations = mutations c @ [DeleteItem i v]\<rparr>))
     \<and> (py_truthy v \<and> (\<exists>d\<in>set (docs c). doc_field d ''location_id'' = Some v) \<and> store_wf c \<longrightarrow>
            (case delete_location lib req c of (r1, c1) \<Rightarrow>
               (case delete_location lib req c1 of (r2, c2) \<Rightarrow>
                  status_code r1 = 200 \<and> status_code r2 = 404 \<and> c2 = c1)))"
proof (intro conjI impI)
  assume "\<not> py_truthy v"
  then show "delete_location lib req c =
      (\<lparr>status_code = 400, body = error_body ''Missing 'location_id' parameter''\<rparr>, c)"
    unfolding delete_location_def delete_location_carried [OF carried] by simp
next
  assume "py_truthy v \<and> find (\<lambda>d. doc_field d ''location_id'' = Some v) (docs c) = None"
  then show "delete_location lib req c =
      (\<lparr>status_code = 404,
        body = error_body (''Location '' @ sq @ fmt lib v @ sq @ '' not found'')\<rparr>, c)"
    using delete_location_not_found [OF carried] by blast
next
  assume "py_truthy v \<and> find (\<lambda>d. doc_field d ''location_id'' = Some v) (docs c) = Some d
          \<and> doc_field d ''id'' = Some i"
  then show "delete_location lib req c =
      (\<lparr>status_code = 200,
        body = JObj [(''message'',
                 JStr (''Location '' @ sq @ fmt lib v @ sq @ '' deleted successfully.''))]\<rparr>,
       \<lparr>docs = filter (\<lambda>d. \<not> same_item (Some i) (Some v) d) (docs c),
        mutations = mutations c @ [DeleteItem i v]\<rparr>)"
    using delete_location_found [OF carried] by blast
next
  assume "py_truthy v \<and> (\<exists>d\<in>set (docs c). doc_field d ''location_id'' = Some v) \<and> store_wf c"
  then show "case delete_location lib req c of (r1, c1) \<Rightarrow>
               (case delete_location lib req c1 of (r2, c2) \<Rightarrow>
                  status_code r1 = 200 \<and> status_code r2 = 404 \<and> c2 = c1)"
    using delete_location_twice [OF carried, of c lib] by simp
qed

theorem delete_location_contract_witness:
  "delete_location example_lib (get_with []) hall_store
     = (\<lparr>status_code = 400, body = error_body ''Missing 'location_id' parameter''\<rparr>, hall_store)
   \<and> delete_location example_lib (get_with [(''location_id'', ''loc-2'')]) hall_store
     = (\<lparr>status_code = 404, body = error_body ''Location 'loc-2' not found''\<rparr>, hall_store)
   \<and> delete_location example_lib (post (JObj [(''location_id'', JStr ''loc-1'')])) hall_store
     = (\<lparr>status_code = 200,
         body = JObj [(''message'', JStr ''Location 'loc-1' deleted successfully.'')]\<rparr>,
        \<lparr>docs = [], mutations = [DeleteItem (JStr ''item-1'') (JStr ''loc-1'')]\<rparr>)
   \<and> (case delete_location example_lib (get_with [(''location_id'', ''loc-1'')]) hall_store of
         (r1, c1) \<Rightarrow>
           (case delete_location example_lib (get_with [(''location_id'', ''loc-1'')]) c1 of
              (r2, c2) \<Rightarrow> status_code r1 = 200 \<and> status_code r2 = 404 \<and> c2 = c1))"
proof (intro conjI)
  show "delete_location example_lib (get_with []) hall_store
     = (\<lparr>status_code = 400, body = error_body ''Missing 'location_id' parameter''\<rparr>, hall_store)"
    using delete_location_contract [where req = "get_with []" and v = JNull
      and lib = example_lib and c = hall_store]
    by (simp add: get_with_def params_get_def)
  show "delete_location example_lib (get_with [(''location_id'', ''loc-2'')]) hall_store
     = (\<lparr>status_code = 404, body = error_body ''Location 'loc-2' not found''\<rparr>, hall_store)"
    using delete_location_contract [where req = "get_with [(''location_id'', ''loc-2'')]"
      and v = "JStr ''loc-2''" and lib = example_lib and c = hall_store]
    by (simp add: get_with_def params_get_def hall_store_def hall_doc_def doc_field_def
          sq_def fmt_def)
  show "delete_location example_lib (post (JObj [(''location_id'', JStr ''loc-1'')])) hall_store
     = (\<lparr>status_code = 200,
         body = JObj [(''message'', JStr ''Location 'loc-1' deleted successfully.'')]\<rparr>,
        \<lparr>docs = [], mutations = [DeleteItem (JStr ''item-1'') (JStr ''loc-1'')]\<rparr>)"
    using delete_location_contract [where req = "post (JObj [(''location_id'', JStr ''loc-1'')])"
      and kv = "[(''location_id'', JStr ''loc-1'')]" and v = "JStr ''loc-1''"
      and d = hall_doc and i = "JStr ''item-1''" and lib = example_lib and c = hall_store]
    by (simp add: post_def dict_get_def hall_store_def hall_doc_def doc_field_def same_item_def
          sq_def fmt_def)
  show "case delete_location example_lib (get_with [(''location_id'', ''loc-1'')]) hall_store of
         (r1, c1) \<Rightarrow>
           (case delete_location example_lib (get_with [(''location_id'', ''loc-1'')]) c1 of
              (r2, c2) \<Rightarrow> status_code r1 = 200 \<and> status_code r2 = 404 \<and> c2 = c1)"
  proof -
    have carried: "method (get_with [(''location_id'', ''loc-1'')]) \<noteq> ''POST''
        \<and> JStr ''loc-1'' = params_get (params (get_with [(''location_id'', ''loc-1'')])) ''location_id''"
      by (simp add: get_with_def params_get_def)
    have stored: "py_truthy (JStr ''loc-1'')
        \<and> (\<exists>d\<in>set (docs hall_store). doc_field d ''location_id'' = Some (JStr ''loc-1''))
        \<and> store_wf hall_store"
      by (simp add: hall_store_def hall_doc_def doc_field_def store_wf_def)
    show ?thesis
      by (rule delete_location_contract [where lib = example_lib and c = hall_store,
            OF disjI2 [OF carried], THEN conjunct2, THEN conjunct2, THEN conjunct2, THEN mp,
            OF stored])
  qed
qed

subsection \<open>Create: duplicate names and missing \<open>events_ids\<close>\<close>

lemma missing_fields_dict:
  "missing_fields fs (JObj kv) = Inr (filter (\<lambda>f. f \<notin> set (map fst kv)) fs)"
  by (induction fs) auto

lemma key_iff: "k \<in> fst ` set kv \<longleftrightarrow> map_of kv k \<noteq> None"
  by (simp add: map_of_eq_None_iff)

lemma map_of_dict_set: "map_of (dict_set kv k v) = (map_of kv)(k \<mapsto> v)"
  by (induction kv k v rule: dict_set.induct) auto

lemma query_nonempty:
  "d \<in> set (docs c) \<Longrightarrow> doc_field d field = Some v \<Longrightarrow> query_items c (SelectWhere field v) \<noteq> []"
  by (auto simp: filter_empty_conv)

lemma query_empty:
  "\<forall>d\<in>set (docs c). doc_field d field \<noteq> Some v \<Longrightarrow> query_items c (SelectWhere field v) = []"
  by (auto simp: filter_empty_conv)

text \<open>
  C1, as stated, fails: other fields of the body do matter. With a stored location
  named \<open>Hall A\<close>, the body \<open>{"location_name": "Hall A", "rooms": null}\<close> is answered
  500, because the room loop of line 50, which runs before the uniqueness query,
  raises on a \<open>rooms\<close> value that cannot be iterated.
\<close>

theorem create_location_duplicate_name_counterexample:
  "doc_field hall_doc ''location_name'' = Some (JStr ''Hall A'')
   \<and> hall_doc \<in> set (docs hall_store)
   \<and> create_location example_lib
        (post (JObj [(''location_name'', JStr ''Hall A''), (''rooms'', JNull)]))
        example_schema hall_store
      = (\<lparr>status_code = 500, body = error_body ''Internal Server Error''\<rparr>, hall_store)"
  by (simp add: example_defs doc_field_def create_location_def create_location_try_def get_json_def)

text \<open>
  C1, amended: for every store state and every Create request whose body is a JSON
  object with a \<open>location_name\<close> equal to that of some stored document, and whose
  \<open>rooms\<close> field is absent or can be checked by the room loop without an exception
  (\<open>rooms_checkable\<close>; any array of objects), \<open>create_location\<close> returns 400 with an
  error string in the body and leaves the store as it was: no document changes and
  no create, replace or delete call is issued, whatever else the body holds.
\<close>

theorem create_location_duplicate_name:
  assumes body: "json_body req = Some (JObj kv)"
    and name: "map_of kv ''location_name'' = Some name"
    and dup: "\<exists>d\<in>set (docs c). doc_field d ''location_name'' = Some name"
    and rooms: "case map_of kv ''rooms'' of None \<Rightarrow> True | Some rooms \<Rightarrow> rooms_checkable rooms"
  shows "\<exists>msg. create_location lib req location_schema c =
           (\<lparr>status_code = 400, body = error_body msg\<rparr>, c)"
proof (cases "map_of kv ''rooms''")
  case None
  then have "missing_fields [''location_name'', ''rooms''] (JObj kv) = Inr [''rooms'']"
    using name by (simp add: missing_fields_dict key_iff)
  then show ?thesis
    using body by (auto simp: create_location_def create_location_try_def get_json_def)
next
  case (Some rooms)
  then have m: "missing_fields [''location_name'', ''rooms''] (JObj kv) = Inr []"
    using name by (simp add: missing_fields_dict key_iff)
  from rooms Some obtain room_list b where
    it: "py_iter rooms = Inr room_list" and chk: "room_lacks_field room_list = Inr b"
    by (auto simp: rooms_checkable_def split: sum.splits)
  from dup have q: "query_items c (SelectWhere ''location_name'' name) \<noteq> []"
    using query_nonempty by blast
  show ?thesis
    using body m Some name it chk q
    by (cases b) (auto simp: create_location_def create_location_try_def get_json_def)
qed

lemma room_check_objects:
  "\<forall>r\<in>set rs. is_dict r \<Longrightarrow> \<exists>b. room_lacks_field rs = Inr b"
proof (induction rs)
  case Nil
  then show ?case by auto
next
  case (Cons r rs)
  then obtain kv where "r = JObj kv" by (cases r) auto
  with Cons show ?case by auto
qed

lemma rooms_checkable_objects:
  "\<forall>r\<in>set rs. is_dict r \<Longrightarrow> rooms_checkable (JArr rs)"
  using room_check_objects [of rs] by (auto simp: rooms_checkable_def)

theorem create_location_duplicate_name_witness:
  "(\<exists>msg. create_location example_lib
       (post (JObj [(''location_name'', JStr ''Hall A''), (''events_ids'', JArr [JStr ''e1'']),
                    (''rooms'', JArr [JObj [(''room_name'', JStr ''R9''), (''capacity'', JInt 7)]])]))
       example_schema hall_store
     = (\<lparr>status_code = 400, body = error_body msg\<rparr>, hall_store))"
  using create_location_duplicate_name [where req = "post (JObj [(''location_name'', JStr ''Hall A''), (''events_ids'', JArr [JStr ''e1'']),
                    (''rooms'', JArr [JObj [(''room_name'', JStr ''R9''), (''capacity'', JInt 7)]])])"
     and name = "JStr ''Hall A''" and c = hall_store and lib = example_lib and location_schema = example_schema]
  by (simp add: post_def hall_store_def hall_doc_def doc_field_def rooms_checkable_def)

text \<open>
  C9: the mandatory-field check asks for \<open>location_name\<close> and \<open>rooms\<close> only, and
  line 104 reads \<open>body["events_ids"]\<close> unconditionally. A body without
  \<open>events_ids\<close> that passes the room check, the uniqueness check and schema
  validation is answered 500 (so not 400), and the store is left as it was: nothing
  is stored and no store call is issued.
\<close>

theorem create_location_missing_events_ids:
  assumes body: "json_body req = Some (JObj kv)"
    and name: "map_of kv ''location_name'' = Some name"
    and rooms: "map_of kv ''rooms'' = Some rooms"
    and no_events: "map_of kv ''events_ids'' = None"
    and it: "py_iter rooms = Inr room_list"
    and chk: "room_lacks_field room_list = Inr False"
    and uniq: "\<forall>d\<in>set (docs c). doc_field d ''location_name'' \<noteq> Some name"
    and valid: "jsonschema_validate lib (JObj kv) location_schema = Valid"
  shows "create_location lib req location_schema c =
           (\<lparr>status_code = 500, body = error_body ''Internal Server Error''\<rparr>, c)"
proof -
  have m: "missing_fields [''location_name'', ''rooms''] (JObj kv) = Inr []"
    using name rooms by (simp add: missing_fields_dict key_iff)
  have q: "query_items c (SelectWhere ''location_name'' name) = []"
    using uniq by (rule query_empty)
  show ?thesis
    using body m name rooms it chk q valid no_events
    by (simp add: create_location_def create_location_try_def get_json_def map_of_dict_set
          raising_def split: sum.splits)
qed


theorem create_location_missing_events_ids_witness:
  "create_location example_lib
     (post (JObj [(''location_name'', JStr ''Hall B''),
                  (''rooms'', JArr [JObj [(''room_name'', JStr ''R1''), (''capacity'', JInt 50)]])]))
     example_schema hall_store
   = (\<lparr>status_code = 500, body = error_body ''Internal Server Error''\<rparr>, hall_store)"
  using create_location_missing_events_ids
    [where req = "post (JObj [(''location_name'', JStr ''Hall B''),
                  (''rooms'', JArr [JObj [(''room_name'', JStr ''R1''), (''capacity'', JInt 50)]])])"
       and name = "JStr ''Hall B''"
       and rooms = "JArr [JObj [(''room_name'', JStr ''R1''), (''capacity'', JInt 50)]]"
       and room_list = "[JObj [(''room_name'', JStr ''R1''), (''capacity'', JInt 50)]]"
       and lib = example_lib and location_schema = example_schema and c = hall_store]
  by (simp add: post_def hall_store_def hall_doc_def doc_field_def example_lib_def)

subsection \<open>Create: the stored document\<close>

lemma doc_field_obj [simp]: "doc_field (JObj kv) key = map_of kv key"
  by (simp add: doc_field_def)

lemma set_room_ids_dicts:
  "\<forall>r\<in>set rs. is_dict r \<Longrightarrow>
   \<exists>rs'. set_room_ids lib rs k = Inr rs' \<and> length rs' = length rs
     \<and> (\<forall>i<length rs. \<forall>f. doc_field (rs' ! i) f =
            (if f = ''room_id'' then Some (JStr (uuid4 lib (k + i))) else doc_field (rs ! i) f))"
proof (induction rs arbitrary: k)
  case Nil
  then show ?case by simp
next
  case (Cons r rs)
  then obtain okv where r: "r = JObj okv" by (cases r) auto
  from Cons.prems have "\<forall>r\<in>set rs. is_dict r" by simp
  from Cons.IH [OF this, of "Suc k"] obtain rs' where
    rs': "set_room_ids lib rs (Suc k) = Inr rs'" "length rs' = length rs"
      "\<And>i f. i < length rs \<Longrightarrow> doc_field (rs' ! i) f =
            (if f = ''room_id'' then Some (JStr (uuid4 lib (Suc k + i))) else doc_field (rs ! i) f)"
    by blast
  let ?r' = "JObj (dict_set okv ''room_id'' (JStr (uuid4 lib k)))"
  have "set_room_ids lib (r # rs) k = Inr (?r' # rs')"
    using r rs'(1) by simp
  moreover have "length (?r' # rs') = length (r # rs)"
    using rs'(2) by simp
  moreover have "\<forall>i<length (r # rs). \<forall>f. doc_field ((?r' # rs') ! i) f =
            (if f = ''room_id'' then Some (JStr (uuid4 lib (k + i))) else doc_field ((r # rs) ! i) f)"
  proof (intro allI impI)
    fix i f
    assume i: "i < length (r # rs)"
    show "doc_field ((?r' # rs') ! i) f =
            (if f = ''room_id'' then Some (JStr (uuid4 lib (k + i))) else doc_field ((r # rs) ! i) f)"
    proof (cases i)
      case 0
      then show ?thesis using r by (simp add: map_of_dict_set)
    next
      case (Suc j)
      with i have "j < length rs" by simp
      from rs'(3) [OF this, of f] Suc show ?thesis by simp
    qed
  qed
  ultimately show ?case by blast
qed


lemma keys_dict_set: "fst ` set (dict_set kv k v) = insert k (fst ` set kv)"
  by (induction kv k v rule: dict_set.induct) auto

lemma add_fields_declared:
  assumes props: "py_getitem location_schema ''properties'' = Inr (JObj props)"
  shows "\<exists>nd'. add_fields location_schema items nd = Inr nd'
     \<and> (\<forall>k. map_of nd' k =
           (if k \<in> fst ` set nd then map_of nd k
            else if k \<in> fst ` set props then map_of items k else None))"
proof (induction items arbitrary: nd)
  case Nil
  then show ?case by (simp add: key_iff)
next
  case (Cons item items)
  obtain key val where item: "item = (key, val)" by (cases item)
  let ?nd2 = "if key \<in> fst ` set nd \<or> key \<notin> fst ` set props then nd else dict_set nd key val"
  have step: "add_fields location_schema (item # items) nd = add_fields location_schema items ?nd2"
    using item props by simp
  from Cons [of ?nd2] obtain nd' where
    nd': "add_fields location_schema items ?nd2 = Inr nd'"
      "\<And>k. map_of nd' k =
           (if k \<in> fst ` set ?nd2 then map_of ?nd2 k
            else if k \<in> fst ` set props then map_of items k else None)"
    by blast
  have "map_of nd' k =
           (if k \<in> fst ` set nd then map_of nd k
            else if k \<in> fst ` set props then map_of (item # items) k else None)" for k
  proof (cases "key \<in> fst ` set nd \<or> key \<notin> fst ` set props")
    case True
    then have "?nd2 = nd" by simp
    with nd'(2) [of k] True item show ?thesis
      by (cases "k = key") auto
  next
    case False
    then have "?nd2 = dict_set nd key val" by simp
    with nd'(2) [of k] False item show ?thesis
      by (cases "k = key") (simp_all add: keys_dict_set map_of_dict_set)
  qed
  with step nd'(1) show ?case by simp
qed


lemma room_check_complete:
  "\<forall>r\<in>set rs. is_dict r \<and> doc_field r ''room_name'' \<noteq> None \<and> doc_field r ''capacity'' \<noteq> None
   \<Longrightarrow> room_lacks_field rs = Inr False"
proof (induction rs)
  case Nil
  then show ?case by simp
next
  case (Cons r rs)
  then obtain rkv where "r = JObj rkv" by (cases r) auto
  with Cons show ?case by (simp add: key_iff)
qed

lemma distinct_room_ids:
  assumes "inj_on u {1..n}" and "length rs' = n"
    and "\<And>i. i < n \<Longrightarrow> doc_field (rs' ! i) ''room_id'' = Some (JStr (u (Suc i)))"
  shows "distinct (map (\<lambda>r. doc_field r ''room_id'') rs')"
proof -
  have "map (\<lambda>r. doc_field r ''room_id'') rs' = map (\<lambda>i. Some (JStr (u (Suc i)))) [0..<n]"
    using assms(2,3) by (simp add: list_eq_iff_nth_eq)
  moreover have "inj_on (\<lambda>i. Some (JStr (u (Suc i)))) {0..<n}"
  proof (rule inj_onI)
    fix i j
    assume "i \<in> {0..<n}" "j \<in> {0..<n}" "Some (JStr (u (Suc i))) = Some (JStr (u (Suc j)))"
    then have "Suc i \<in> {1..n}" "Suc j \<in> {1..n}" "u (Suc i) = u (Suc j)" by auto
    with assms(1) have "Suc i = Suc j" by (auto dest: inj_onD)
    then show "i = j" by simp
  qed
  ultimately show ?thesis by (simp add: distinct_map)
qed

text \<open>
  C2, as stated, fails: a body without \<open>events_ids\<close> passes every earlier check
  (both mandatory fields present, the room complete, no duplicate name, validation
  succeeding) and is answered 500, with nothing stored.
\<close>

theorem create_location_valid_counterexample:
  "missing_fields [''location_name'', ''rooms'']
      (JObj [(''location_name'', JStr ''Hall B''),
             (''rooms'', JArr [JObj [(''room_name'', JStr ''R1''), (''capacity'', JInt 50)]])])
     = Inr []
   \<and> room_lacks_field [JObj [(''room_name'', JStr ''R1''), (''capacity'', JInt 50)]] = Inr False
   \<and> query_items empty_store (SelectWhere ''location_name'' (JStr ''Hall B'')) = []
   \<and> jsonschema_validate example_lib
        (JObj [(''location_name'', JStr ''Hall B''),
               (''rooms'', JArr [JObj [(''room_name'', JStr ''R1''), (''capacity'', JInt 50)]])])
        example_schema = Valid
   \<and> create_location example_lib
        (post (JObj [(''location_name'', JStr ''Hall B''),
                     (''rooms'', JArr [JObj [(''room_name'', JStr ''R1''), (''capacity'', JInt 50)]])]))
        example_schema empty_store
      = (\<lparr>status_code = 500, body = error_body ''Internal Server Error''\<rparr>, empty_store)"
  by (simp add: example_defs create_location_def create_location_try_def get_json_def
        assign_room_ids_def rooms_count_def)

text \<open>
  C2, amended: for every Create request whose body is a JSON object with
  \<open>location_name\<close>, \<open>events_ids\<close> and a \<open>rooms\<close> array of objects that each have
  \<open>room_name\<close> and \<open>capacity\<close>, with no stored document of that \<open>location_name\<close>,
  schema validation succeeding against a schema that has an object of
  \<open>properties\<close>, and freshly generated identifiers (the first \<open>uuid4\<close> value is
  the \<open>location_id\<close> of no stored document, the values drawn for the rooms are
  pairwise distinct), \<open>create_location\<close> returns 202 with the generated
  \<open>location_id\<close> and appends one document by one \<open>create_item\<close> call. Exactly
  one stored document carries that \<open>location_id\<close> afterwards; the \<open>i\<close>-th room of
  that document is the \<open>i\<close>-th room of the body with \<open>room_id\<close> set to the next
  generated value, so the \<open>room_id\<close>s are distinct. The document also holds the
  body's \<open>location_name\<close> and \<open>events_ids\<close>, and of the body's other keys exactly
  those declared in the schema's \<open>properties\<close>.
\<close>

theorem create_location_valid:
  assumes body: "json_body req = Some (JObj kv)"
    and name: "map_of kv ''location_name'' = Some name"
    and events: "map_of kv ''events_ids'' = Some events"
    and rooms: "map_of kv ''rooms'' = Some (JArr rs)"
    and room_fields: "\<forall>r\<in>set rs. is_dict r \<and> doc_field r ''room_name'' \<noteq> None
                                \<and> doc_field r ''capacity'' \<noteq> None"
    and uniq: "\<forall>d\<in>set (docs c). doc_field d ''location_name'' \<noteq> Some name"
    and valid: "jsonschema_validate lib (JObj kv) location_schema = Valid"
    and props: "py_getitem location_schema ''properties'' = Inr (JObj props)"
    and fresh: "\<forall>d\<in>set (docs c). doc_field d ''location_id'' \<noteq> Some (JStr (uuid4 lib 0))"
    and distinct_ids: "inj_on (uuid4 lib) {1..length rs}"
  shows "\<exists>new rooms'.
      create_location lib req location_schema c =
        (\<lparr>status_code = 202,
          body = JObj [(''message'', JStr ''Location created successfully.''),
                       (''location_id'', JStr (uuid4 lib 0))]\<rparr>,
         \<lparr>docs = docs c @ [JObj new], mutations = mutations c @ [CreateItem (JObj new)]\<rparr>)
      \<and> filter (\<lambda>d. doc_field d ''location_id'' = Some (JStr (uuid4 lib 0))) (docs c @ [JObj new])
          = [JObj new]
      \<and> map_of new ''location_name'' = Some name
      \<and> map_of new ''events_ids'' = Some events
      \<and> map_of new ''rooms'' = Some (JArr rooms')
      \<and> length rooms' = length rs
      \<and> (\<forall>i<length rs. \<forall>f. doc_field (rooms' ! i) f =
            (if f = ''room_id'' then Some (JStr (uuid4 lib (Suc i))) else doc_field (rs ! i) f))
      \<and> distinct (map (\<lambda>r. doc_field r ''room_id'') rooms')
      \<and> (\<forall>k. k \<notin> {''id'', ''location_id'', ''location_name'', ''events_ids'', ''rooms''} \<longrightarrow>
            map_of new k = (if k \<in> fst ` set props then map_of kv k else None))"
proof -
  have dicts: "\<forall>r\<in>set rs. is_dict r"
    using room_fields by auto
  from set_room_ids_dicts [OF dicts, of lib 1] obtain rooms' where
    rooms': "set_room_ids lib rs 1 = Inr rooms'" "length rooms' = length rs"
      "\<And>i f. i < length rs \<Longrightarrow> doc_field (rooms' ! i) f =
            (if f = ''room_id'' then Some (JStr (uuid4 lib (Suc i))) else doc_field (rs ! i) f)"
    by auto
  let ?nd = "[(''id'', JStr (uuid4 lib (Suc (length rs)))),
              (''location_id'', JStr (uuid4 lib 0)),
              (''location_name'', name),
              (''events_ids'', events),
              (''rooms'', JArr rooms')]"
  let ?items = "dict_set kv ''rooms'' (JArr rooms')"
  from add_fields_declared [OF props, of ?items ?nd] obtain new where
    new: "add_fields location_schema ?items ?nd = Inr new"
      "\<And>k. map_of new k =
           (if k \<in> fst ` set ?nd then map_of ?nd k
            else if k \<in> fst ` set props then map_of ?items k else None)"
    by blast
  have new_id: "map_of new ''id'' = Some (JStr (uuid4 lib (Suc (length rs))))"
    and new_lid: "map_of new ''location_id'' = Some (JStr (uuid4 lib 0))"
    and new_name: "map_of new ''location_name'' = Some name"
    and new_events: "map_of new ''events_ids'' = Some events"
    and new_rooms: "map_of new ''rooms'' = Some (JArr rooms')"
    by (simp_all add: new(2))
  have extra: "map_of new k = (if k \<in> fst ` set props then map_of kv k else None)"
    if "k \<notin> {''id'', ''location_id'', ''location_name'', ''events_ids'', ''rooms''}" for k
    using that by (simp add: new(2) map_of_dict_set)
  have no_conflict: "\<not> list_ex (same_item (Some (JStr (uuid4 lib (Suc (length rs)))))
                               (Some (JStr (uuid4 lib 0)))) (docs c)"
    using fresh by (auto simp: list_ex_iff same_item_def)
  have created: "create_item (JObj new) c =
      (Inr (), \<lparr>docs = docs c @ [JObj new], mutations = mutations c @ [CreateItem (JObj new)]\<rparr>)"
    using no_conflict by (simp add: create_item_def new_id new_lid)
  have m: "missing_fields [''location_name'', ''rooms''] (JObj kv) = Inr []"
    using name rooms by (simp add: missing_fields_dict key_iff)
  have chk: "room_lacks_field rs = Inr False"
    using room_fields by (rule room_check_complete)
  have q: "query_items c (SelectWhere ''location_name'' name) = []"
    using uniq by (rule query_empty)
  have tried: "create_location_try lib req location_schema c =
      (Inr \<lparr>status_code = 202,
          body = JObj [(''message'', JStr ''Location created successfully.''),
                       (''location_id'', JStr (uuid4 lib 0))]\<rparr>,
         \<lparr>docs = docs c @ [JObj new], mutations = mutations c @ [CreateItem (JObj new)]\<rparr>)"
    unfolding create_location_try_def
    using body m name events rooms chk q valid rooms'(1) new(1) created
    by (simp add: get_json_def assign_room_ids_def rooms_count_def body_items_def map_of_dict_set)
  have only: "filter (\<lambda>d. doc_field d ''location_id'' = Some (JStr (uuid4 lib 0))) (docs c @ [JObj new])
          = [JObj new]"
    using fresh new_lid by (simp add: filter_empty_conv)
  have dist: "distinct (map (\<lambda>r. doc_field r ''room_id'') rooms')"
    using distinct_ids rooms'(2) by (rule distinct_room_ids) (simp add: rooms'(3))
  show ?thesis
    using tried only new_name new_events new_rooms rooms'(2) rooms'(3) dist extra
    by (intro exI [of _ new] exI [of _ rooms']) (simp add: create_location_def)
qed

theorem create_location_valid_witness:
  "\<exists>new rooms'.
     create_location example_lib
       (post (JObj [(''location_name'', JStr ''Hall A''), (''events_ids'', JArr []),
                    (''rooms'', JArr [JObj [(''room_name'', JStr ''R1''), (''capacity'', JInt 50)],
                                      JObj [(''room_name'', JStr ''R2''), (''capacity'', JInt 8)]])]))
       example_schema empty_store
     = (\<lparr>status_code = 202,
         body = JObj [(''message'', JStr ''Location created successfully.''),
                      (''location_id'', JStr ''uuid-'')]\<rparr>,
        \<lparr>docs = [JObj new], mutations = [CreateItem (JObj new)]\<rparr>)
     \<and> map_of new ''location_id'' = Some (JStr ''uuid-'')
     \<and> map_of new ''rooms'' = Some (JArr rooms')
     \<and> length rooms' = 2
     \<and> distinct (map (\<lambda>r. doc_field r ''room_id'') rooms')"
proof -
  let ?rs = "[JObj [(''room_name'', JStr ''R1''), (''capacity'', JInt 50)],
              JObj [(''room_name'', JStr ''R2''), (''capacity'', JInt 8)]]"
  let ?kv = "[(''location_name'', JStr ''Hall A''), (''events_ids'', JArr []), (''rooms'', JArr ?rs)]"
  have body: "json_body (post (JObj ?kv)) = Some (JObj ?kv)"
    by (simp add: post_def)
  have name: "map_of ?kv ''location_name'' = Some (JStr ''Hall A'')"
    and events: "map_of ?kv ''events_ids'' = Some (JArr [])"
    and rooms: "map_of ?kv ''rooms'' = Some (JArr ?rs)"
    by simp_all
  have room_fields: "\<forall>r\<in>set ?rs. is_dict r \<and> doc_field r ''room_name'' \<noteq> None
                                \<and> doc_field r ''capacity'' \<noteq> None"
    by simp
  have uniq: "\<forall>d\<in>set (docs empty_store). doc_field d ''location_name'' \<noteq> Some (JStr ''Hall A'')"
    and fresh: "\<forall>d\<in>set (docs empty_store).
                   doc_field d ''location_id'' \<noteq> Some (JStr (uuid4 example_lib 0))"
    by (simp_all add: empty_store_def)
  have valid: "jsonschema_validate example_lib (JObj ?kv) example_schema = Valid"
    by (simp add: example_lib_def)
  have props: "py_getitem example_schema ''properties''
      = Inr (JObj [(''location_name'', JObj []), (''rooms'', JObj []), (''events_ids'', JObj [])])"
    by (simp add: example_schema_def)
  have distinct_ids: "inj_on (uuid4 example_lib) {1..length ?rs}"
    by (simp add: example_lib_def inj_on_def)
  show ?thesis
    using create_location_valid
      [OF body name events rooms room_fields uniq valid props fresh distinct_ids]
    apply (elim exE conjE)
    subgoal for new rooms'
      apply (rule exI [of _ new], rule exI [of _ rooms'])
      apply (simp add: empty_store_def example_lib_def split: if_splits)
      done
    done
qed

subsection \<open>Edit: the merge\<close>

lemma merge_updates_dict:
  "\<exists>new. merge_updates keys (JObj kv) (JObj old) u
            = Inr (JObj new, u \<or> (\<exists>k\<in>set keys. k \<in> fst ` set kv))
     \<and> (\<forall>k. map_of new k =
            (if k \<in> set keys \<and> k \<in> fst ` set kv then map_of kv k else map_of old k))"
proof (induction keys arbitrary: old u)
  case Nil
  then show ?case by simp
next
  case (Cons key keys)
  show ?case
  proof (cases "key \<in> fst ` set kv")
    case True
    then obtain v where v: "map_of kv key = Some v"
      by (auto simp: key_iff)
    from Cons [of "dict_set old key v" True] obtain new where
      new: "merge_updates keys (JObj kv) (JObj (dict_set old key v)) True = Inr (JObj new, True)"
        "\<And>k. map_of new k =
            (if k \<in> set keys \<and> k \<in> fst ` set kv then map_of kv k
             else map_of (dict_set old key v) k)"
      by auto
    have "merge_updates (key # keys) (JObj kv) (JObj old) u = Inr (JObj new, True)"
      using True v new(1) by simp
    moreover have "map_of new k =
            (if k \<in> set (key # keys) \<and> k \<in> fst ` set kv then map_of kv k else map_of old k)" for k
      using new(2) [of k] True v by (cases "k = key") (simp_all add: map_of_dict_set)
    ultimately show ?thesis using True by auto
  next
    case False
    from Cons [of old u] obtain new where
      new: "merge_updates keys (JObj kv) (JObj old) u
              = Inr (JObj new, u \<or> (\<exists>k\<in>set keys. k \<in> fst ` set kv))"
        "\<And>k. map_of new k =
            (if k \<in> set keys \<and> k \<in> fst ` set kv then map_of kv k else map_of old k)"
      by auto
    have "merge_updates (key # keys) (JObj kv) (JObj old) u
              = Inr (JObj new, u \<or> (\<exists>k\<in>set keys. k \<in> fst ` set kv))"
      using False new(1) by simp
    moreover have "map_of new k =
            (if k \<in> set (key # keys) \<and> k \<in> fst ` set kv then map_of kv k else map_of old k)" for k
      using new(2) [of k] False by (cases "k = key") simp_all
    ultimately show ?thesis using False by auto
  qed
qed

lemma doc_field_Some_obj: "doc_field d key = Some v \<Longrightarrow> \<exists>kv. d = JObj kv"
  by (cases d) (auto simp: doc_field_def)


lemma edit_location_found:
  assumes body: "json_body req = Some (JObj kv)"
    and v: "map_of kv ''location_id'' = Some v" "py_truthy v"
    and q: "query_items c (SelectWhere ''location_id'' v) = JObj old # others"
    and merged: "merge_updates updatable_keys (JObj kv) (JObj old) False = Inr (JObj new, True)"
  shows "edit_location lib req location_schema c =
     (case jsonschema_validate lib (JObj new) location_schema of
        ValidationError ve \<Rightarrow>
          (\<lparr>status_code = 400, body = error_body (''JSON schema validation error: '' @ ve)\<rparr>, c)
      | Raises e \<Rightarrow> (\<lparr>status_code = 500, body = error_body ''Internal Server Error''\<rparr>, c)
      | Valid \<Rightarrow>
          (case replace_item (JObj new) (JObj new) c of
             (Inl e, c') \<Rightarrow> (\<lparr>status_code = 500, body = error_body ''Internal Server Error''\<rparr>, c')
           | (Inr u, c') \<Rightarrow>
               (\<lparr>status_code = 200,
                 body = JObj [(''message'',
                           JStr (''Location '' @ sq @ fmt lib v @ sq @ '' updated successfully.'')),
                          (''location'', JObj new)]\<rparr>, c')))"
proof -
  have "kv \<noteq> []" using v(1) by auto
  then show ?thesis
    using body v q merged
    by (simp add: edit_location_def edit_location_try_def get_json_def dict_get_def
          split: validation.splits prod.splits sum.splits)
qed

text \<open>
  C7: whenever \<open>edit_location\<close> returns 200, the body is an object whose
  \<open>location_id\<close> selects a stored document \<open>old\<close> (the first with that
  \<open>location_id\<close>), and the persisted document \<open>new\<close> is \<open>old\<close> with exactly the keys
  among \<open>location_id\<close>, \<open>location_name\<close>, \<open>events_ids\<close>, \<open>rooms\<close> that occur in the
  body overwritten by the body's values: every other field of \<open>old\<close> is kept and
  every other key of the body is ignored. \<open>new\<close> replaces the document identified by
  \<open>old\<close>'s \<open>id\<close> and \<open>location_id\<close> through one \<open>replace_item\<close> call, is stored
  afterwards and is returned under \<open>location\<close>. In particular a body with only
  \<open>location_id\<close> and \<open>events_ids\<close> updates \<open>events_ids\<close> and leaves
  \<open>location_name\<close> and \<open>rooms\<close> as they were.
\<close>

theorem edit_location_merge:
  assumes run: "edit_location lib req location_schema c = (r, c')"
    and ok: "status_code r = 200"
  shows "\<exists>kv v old new.
      json_body req = Some (JObj kv) \<and> map_of kv ''location_id'' = Some v
      \<and> find (\<lambda>d. doc_field d ''location_id'' = Some v) (docs c) = Some (JObj old)
      \<and> (\<forall>k. map_of new k =
             (if k \<in> {''location_id'', ''location_name'', ''events_ids'', ''rooms''}
                   \<and> k \<in> fst ` set kv
                then map_of kv k else map_of old k))
      \<and> (fst ` set kv = {''location_id'', ''events_ids''} \<longrightarrow>
             map_of new ''events_ids'' = map_of kv ''events_ids''
             \<and> map_of new ''location_name'' = map_of old ''location_name''
             \<and> map_of new ''rooms'' = map_of old ''rooms'')
      \<and> body r = JObj [(''message'',
                          JStr (''Location '' @ sq @ fmt lib v @ sq @ '' updated successfully.'')),
                        (''location'', JObj new)]
      \<and> docs c' = map (\<lambda>d. if same_item (map_of old ''id'') (Some v) d then JObj new else d) (docs c)
      \<and> JObj new \<in> set (docs c')
      \<and> mutations c' = mutations c @ [ReplaceItem (JObj new) (JObj new)]"
proof -
  from run ok obtain body0 where b0: "json_body req = Some body0"
    by (cases "json_body req") (auto simp: edit_location_def edit_location_try_def get_json_def)
  from run ok b0 have "py_truthy body0 \<and> is_dict body0"
    by (auto simp: edit_location_def edit_location_try_def get_json_def split: if_splits)
  then obtain kv where kv: "body0 = JObj kv" "kv \<noteq> []"
    by (cases body0) auto
  from run ok b0 kv have "py_truthy (dict_get kv ''location_id'')"
    by (auto simp: edit_location_def edit_location_try_def get_json_def split: if_splits)
  then obtain v where v: "map_of kv ''location_id'' = Some v" "py_truthy v"
    by (auto simp: dict_get_def split: option.splits)
  from run ok b0 kv v obtain d others where
    q: "query_items c (SelectWhere ''location_id'' v) = d # others"
    by (cases "query_items c (SelectWhere ''location_id'' v)")
       (auto simp: edit_location_def edit_location_try_def get_json_def dict_get_def)
  then have "d \<in> set (filter (\<lambda>d. doc_field d ''location_id'' = Some v) (docs c))"
    by simp
  then have d: "d \<in> set (docs c)" "doc_field d ''location_id'' = Some v"
    by auto
  then obtain old where old: "d = JObj old"
    using doc_field_Some_obj by blast
  have found: "find (\<lambda>d. doc_field d ''location_id'' = Some v) (docs c) = Some (JObj old)"
    using q old by (simp add: find_filter)
  have lid_key: "''location_id'' \<in> fst ` set kv"
    using v(1) by (simp add: key_iff)
  from merge_updates_dict [of updatable_keys kv old False] lid_key obtain new where
    merged: "merge_updates updatable_keys (JObj kv) (JObj old) False = Inr (JObj new, True)"
    and fields: "\<And>k. map_of new k =
             (if k \<in> set updatable_keys \<and> k \<in> fst ` set kv then map_of kv k else map_of old k)"
    by (auto simp: updatable_keys_def)
  note shape = edit_location_found [OF b0 [unfolded kv(1)] v q [unfolded old] merged,
      of lib location_schema]
  from run ok shape have valid: "jsonschema_validate lib (JObj new) location_schema = Valid"
    by (cases "jsonschema_validate lib (JObj new) location_schema") auto
  have new_id: "map_of new ''id'' = map_of old ''id''"
    and new_lid: "map_of new ''location_id'' = Some v"
    using fields lid_key v(1) by (simp_all add: updatable_keys_def)
  from d old have old_lid: "map_of old ''location_id'' = Some v"
    by simp
  from run ok shape valid obtain u where
    replaced: "replace_item (JObj new) (JObj new) c = (Inr u, c')"
    and resp: "r = \<lparr>status_code = 200,
                 body = JObj [(''message'',
                           JStr (''Location '' @ sq @ fmt lib v @ sq @ '' updated successfully.'')),
                          (''location'', JObj new)]\<rparr>"
    by (auto split: prod.splits sum.splits)
  from replaced have
    c': "c' = \<lparr>docs = map (\<lambda>d. if same_item (map_of old ''id'') (Some v) d then JObj new else d) (docs c),
              mutations = mutations c @ [ReplaceItem (JObj new) (JObj new)]\<rparr>"
    and ex: "list_ex (same_item (map_of old ''id'') (Some v)) (docs c)"
    by (auto simp: replace_item_def Let_def new_id new_lid split: option.splits if_splits)
  from ex obtain d' where "d' \<in> set (docs c)" "same_item (map_of old ''id'') (Some v) d'"
    by (auto simp: list_ex_iff)
  then have stored: "JObj new \<in> set (docs c')"
    unfolding c' by (auto simp: image_iff intro!: bexI [of _ d'])
  have particular: "map_of new ''events_ids'' = map_of kv ''events_ids''
             \<and> map_of new ''location_name'' = map_of old ''location_name''
             \<and> map_of new ''rooms'' = map_of old ''rooms''"
    if "fst ` set kv = {''location_id'', ''events_ids''}"
    using that by (simp add: fields updatable_keys_def)
  have keys: "set updatable_keys = {''location_id'', ''location_name'', ''events_ids'', ''rooms''}"
    by (simp add: updatable_keys_def)
  have literal: "\<forall>k. map_of new k =
             (if k \<in> {''location_id'', ''location_name'', ''events_ids'', ''rooms''}
                   \<and> k \<in> fst ` set kv
                then map_of kv k else map_of old k)"
    using fields unfolding keys by blast
  show ?thesis
    using b0 kv(1) v(1) found literal particular resp c' stored
    by (intro exI [of _ kv] exI [of _ v] exI [of _ old] exI [of _ new]) simp
qed

theorem edit_location_merge_witness:
  "\<exists>new.
     edit_location example_lib
       (post (JObj [(''location_id'', JStr ''loc-1''), (''events_ids'', JArr [JStr ''e1''])]))
       example_schema hall_store
     = (\<lparr>status_code = 200,
         body = JObj [(''message'', JStr ''Location 'loc-1' updated successfully.''),
                      (''location'', JObj new)]\<rparr>,
        \<lparr>docs = [JObj new], mutations = [ReplaceItem (JObj new) (JObj new)]\<rparr>)
     \<and> map_of new ''events_ids'' = Some (JArr [JStr ''e1''])
     \<and> map_of new ''location_name'' = doc_field hall_doc ''location_name''
     \<and> map_of new ''rooms'' = doc_field hall_doc ''rooms''
     \<and> map_of new ''id'' = doc_field hall_doc ''id''"
proof -
  define req where "req = post (JObj [(''location_id'', JStr ''loc-1''), (''events_ids'', JArr [JStr ''e1''])])"
  obtain r c' where run: "edit_location example_lib req example_schema hall_store = (r, c')"
    by (cases "edit_location example_lib req example_schema hall_store")
  have "status_code (fst (edit_location example_lib req example_schema hall_store)) = 200"
    by (simp add: req_def example_defs edit_location_def edit_location_try_def get_json_def dict_get_def
          updatable_keys_def replace_item_def same_item_def Let_def)
  then have ok: "status_code r = 200"
    by (simp add: run)
  from edit_location_merge [OF run ok] obtain kv v old new where
    b: "json_body req = Some (JObj kv)"
    and v: "map_of kv ''location_id'' = Some v"
    and found: "find (\<lambda>d. doc_field d ''location_id'' = Some v) (docs hall_store) = Some (JObj old)"
    and fields: "\<forall>k. map_of new k =
             (if k \<in> {''location_id'', ''location_name'', ''events_ids'', ''rooms''}
                   \<and> k \<in> fst ` set kv
                then map_of kv k else map_of old k)"
    and resp: "body r = JObj [(''message'',
                          JStr (''Location '' @ sq @ fmt example_lib v @ sq @ '' updated successfully.'')),
                        (''location'', JObj new)]"
    and d: "docs c' = map (\<lambda>d. if same_item (map_of old ''id'') (Some v) d then JObj new else d) (docs hall_store)"
    and m: "mutations c' = mutations hall_store @ [ReplaceItem (JObj new) (JObj new)]"
    by blast
  from b have kv: "kv = [(''location_id'', JStr ''loc-1''), (''events_ids'', JArr [JStr ''e1''])]"
    by (simp add: req_def post_def)
  from v kv have v': "v = JStr ''loc-1''"
    by simp
  from found v' have old: "old = [(''id'', JStr ''item-1''), (''location_id'', JStr ''loc-1''),
                    (''location_name'', JStr ''Hall A''), (''events_ids'', JArr []),
                    (''rooms'', JArr [JObj [(''room_name'', JStr ''R1''), (''capacity'', JInt 50),
                                            (''room_id'', JStr ''room-1'')]])]"
    by (simp add: hall_store_def hall_doc_def)
  have r: "r = \<lparr>status_code = 200,
         body = JObj [(''message'', JStr ''Location 'loc-1' updated successfully.''),
                      (''location'', JObj new)]\<rparr>"
    using ok resp v' by (cases r) (simp add: fmt_def sq_def)
  have c': "c' = \<lparr>docs = [JObj new], mutations = [ReplaceItem (JObj new) (JObj new)]\<rparr>"
    using d m by (cases c') (simp add: v' old hall_store_def hall_doc_def same_item_def)
  have "map_of new ''events_ids'' = Some (JArr [JStr ''e1''])"
    and "map_of new ''location_name'' = doc_field hall_doc ''location_name''"
    and "map_of new ''rooms'' = doc_field hall_doc ''rooms''"
    and "map_of new ''id'' = doc_field hall_doc ''id''"
    using fields by (simp_all add: kv old hall_doc_def)
  then show ?thesis
    using run r c' unfolding req_def by (intro exI [of _ new]) simp
qed

subsection \<open>One write or none\<close>

lemma create_item_frame:
  "create_item doc c = (res, c') \<Longrightarrow>
     mutations c' = mutations c @ [CreateItem doc] \<and> (docs c' = docs c \<or> res = Inr ())"
  by (auto simp: create_item_def Let_def split: option.splits if_splits)

lemma replace_item_frame:
  "replace_item item b c = (res, c') \<Longrightarrow>
     mutations c' = mutations c @ [ReplaceItem item b] \<and> (docs c' = docs c \<or> res = Inr ())"
  by (auto simp: replace_item_def Let_def split: option.splits if_splits)

lemma delete_item_frame:
  "delete_item item pk c = (res, c') \<Longrightarrow>
     mutations c' = mutations c @ [DeleteItem item pk] \<and> (docs c' = docs c \<or> res = Inr ())"
  by (auto simp: delete_item_def Let_def split: option.splits if_splits)

lemma get_location_frame: "snd (get_location lib req c) = c"
  by (auto simp: get_location_def get_location_try_def raising_def split: sum.splits list.splits)

lemma delete_location_frame:
  assumes "delete_location lib req c = (r, c')"
  shows "(mutations c' = mutations c \<or> (\<exists>call. mutations c' = mutations c @ [call]))
     \<and> (status_code r \<noteq> 200 \<longrightarrow> docs c' = docs c)"
  using assms
  by (auto simp: delete_location_def delete_location_try_def raising_def
        split: sum.splits list.splits prod.splits if_splits dest!: delete_item_frame)

lemma edit_location_frame:
  assumes "edit_location lib req location_schema c = (r, c')"
  shows "(mutations c' = mutations c \<or> (\<exists>call. mutations c' = mutations c @ [call]))
     \<and> (status_code r \<noteq> 200 \<longrightarrow> docs c' = docs c)"
  using assms
  by (auto simp: edit_location_def edit_location_try_def raising_def
        split: sum.splits list.splits prod.splits if_splits validation.splits dest!: replace_item_frame)


lemma create_location_frame:
  assumes "create_location lib req location_schema c = (r, c')"
  shows "(mutations c' = mutations c \<or> (\<exists>call. mutations c' = mutations c @ [call]))
     \<and> (status_code r \<noteq> 202 \<longrightarrow> docs c' = docs c)"
  using assms
  by (auto simp: create_location_def create_location_try_def raising_def Let_def
        split: sum.splits list.splits prod.splits if_splits validation.splits dest!: create_item_frame)


text \<open>
  C8: each operation issues at most one mutating store call per invocation (the log
  of create, replace and delete calls grows by at most one entry; Get issues none),
  and whenever an operation returns a status other than its success code (202 for
  Create, 200 for the others) the stored documents are as they were before.
\<close>

theorem single_write_or_none:
  "(case create_location lib req location_schema c of (r, c') \<Rightarrow>
      (mutations c' = mutations c \<or> (\<exists>call. mutations c' = mutations c @ [call]))
      \<and> (status_code r \<noteq> 202 \<longrightarrow> docs c' = docs c))
   \<and> (case delete_location lib req c of (r, c') \<Rightarrow>
      (mutations c' = mutations c \<or> (\<exists>call. mutations c' = mutations c @ [call]))
      \<and> (status_code r \<noteq> 200 \<longrightarrow> docs c' = docs c))
   \<and> (case get_location lib req c of (r, c') \<Rightarrow>
      mutations c' = mutations c \<and> docs c' = docs c)
   \<and> (case edit_location lib req location_schema c of (r, c') \<Rightarrow>
      (mutations c' = mutations c \<or> (\<exists>call. mutations c' = mutations c @ [call]))
      \<and> (status_code r \<noteq> 200 \<longrightarrow> docs c' = docs c))"
proof (intro conjI)
  show "case create_location lib req location_schema c of (r, c') \<Rightarrow>
      (mutations c' = mutations c \<or> (\<exists>call. mutations c' = mutations c @ [call]))
      \<and> (status_code r \<noteq> 202 \<longrightarrow> docs c' = docs c)"
    using create_location_frame [of lib req location_schema c]
    by (cases "create_location lib req location_schema c") simp
  show "case delete_location lib req c of (r, c') \<Rightarrow>
      (mutations c' = mutations c \<or> (\<exists>call. mutations c' = mutations c @ [call]))
      \<and> (status_code r \<noteq> 200 \<longrightarrow> docs c' = docs c)"
    using delete_location_frame [of lib req c]
    by (cases "delete_location lib req c") simp
  show "case get_location lib req c of (r, c') \<Rightarrow>
      mutations c' = mutations c \<and> docs c' = docs c"
    using get_location_frame [of lib req c]
    by (cases "get_location lib req c") simp
  show "case edit_location lib req location_schema c of (r, c') \<Rightarrow>
      (mutations c' = mutations c \<or> (\<exists>call. mutations c' = mutations c @ [call]))
      \<and> (status_code r \<noteq> 200 \<longrightarrow> docs c' = docs c)"
    using edit_location_frame [of lib req location_schema c]
    by (cases "edit_location lib req location_schema c") simp
qed

theorem single_write_or_none_witness:
  "status_code (fst (create_location example_lib
       (post (JObj [(''location_name'', JStr ''Hall A''), (''events_ids'', JArr []),
                    (''rooms'', JArr [])])) example_schema hall_store)) = 400
   \<and> docs (snd (create_location example_lib
       (post (JObj [(''location_name'', JStr ''Hall A''), (''events_ids'', JArr []),
                    (''rooms'', JArr [])])) example_schema hall_store)) = [hall_doc]
   \<and> status_code (fst (delete_location example_lib
       (post (JObj [(''location_id'', JStr ''loc-2'')])) hall_store)) = 404
   \<and> docs (snd (delete_location example_lib
       (post (JObj [(''location_id'', JStr ''loc-2'')])) hall_store)) = [hall_doc]
   \<and> status_code (fst (edit_location example_lib
       (post (JObj [(''location_id'', JStr ''loc-2''), (''events_ids'', JArr [])]))
       example_schema hall_store)) = 404
   \<and> docs (snd (edit_location example_lib
       (post (JObj [(''location_id'', JStr ''loc-2''), (''events_ids'', JArr [])]))
       example_schema hall_store)) = [hall_doc]"
proof -
  define creq where
    "creq = post (JObj [(''location_name'', JStr ''Hall A''), (''events_ids'', JArr []),
                        (''rooms'', JArr [])])"
  define dreq where "dreq = post (JObj [(''location_id'', JStr ''loc-2'')])"
  define ereq where
    "ereq = post (JObj [(''location_id'', JStr ''loc-2''), (''events_ids'', JArr [])])"
  have cs: "status_code (fst (create_location example_lib creq example_schema hall_store)) = 400"
    by (simp add: creq_def example_defs create_location_def create_location_try_def get_json_def
          doc_field_def)
  have ds: "status_code (fst (delete_location example_lib dreq hall_store)) = 404"
    by (simp add: dreq_def example_defs delete_location_def delete_location_try_def get_json_def
          dict_get_def doc_field_def)
  have es: "status_code (fst (edit_location example_lib ereq example_schema hall_store)) = 404"
    by (simp add: ereq_def example_defs edit_location_def edit_location_try_def get_json_def
          dict_get_def doc_field_def)
  have "docs (snd (create_location example_lib creq example_schema hall_store)) = docs hall_store"
    using single_write_or_none [where lib = example_lib and req = creq
        and location_schema = example_schema and c = hall_store] cs
    by (simp add: case_prod_unfold)
  moreover
  have "docs (snd (delete_location example_lib dreq hall_store)) = docs hall_store"
    using single_write_or_none [where lib = example_lib and req = dreq
        and location_schema = example_schema and c = hall_store] ds
    by (simp add: case_prod_unfold)
  moreover
  have "docs (snd (edit_location example_lib ereq example_schema hall_store)) = docs hall_store"
    using single_write_or_none [where lib = example_lib and req = ereq
        and location_schema = example_schema and c = hall_store] es
    by (simp add: case_prod_unfold)
  ultimately show ?thesis
    using cs ds es unfolding creq_def dreq_def ereq_def by (simp add: hall_store_def)
qed

subsection \<open>The handlers keep the store well-formed\<close>

text \<open>
  \<open>store_wf\<close>, under which the repeated delete is stated, is an invariant of the
  four handlers: Delete removes documents, Get changes nothing, Edit replaces a
  document by one with the same \<open>id\<close> and \<open>location_id\<close>, and Create appends a
  document with an \<open>id\<close> and the generated \<open>location_id\<close>, which has to be new to
  the store.
\<close>

lemma store_wf_fields:
  assumes "map (\<lambda>d. (doc_field d ''id'', doc_field d ''location_id'')) (docs c')
         = map (\<lambda>d. (doc_field d ''id'', doc_field d ''location_id'')) (docs c)"
    and "store_wf c"
  shows "store_wf c'"
proof -
  let ?f = "\<lambda>d. (doc_field d ''id'', doc_field d ''location_id'')"
  have wf_iff: "store_wf x \<longleftrightarrow>
      (\<forall>p\<in>set (map ?f (docs x)). fst p \<noteq> None)
      \<and> (\<forall>p\<in>set (map ?f (docs x)). \<forall>p'\<in>set (map ?f (docs x)).
            snd p \<noteq> None \<and> snd p = snd p' \<longrightarrow> fst p = fst p')" for x
    unfolding store_wf_def list_all_iff by simp
  from assms(2) have "(\<forall>p\<in>set (map ?f (docs c)). fst p \<noteq> None)
      \<and> (\<forall>p\<in>set (map ?f (docs c)). \<forall>p'\<in>set (map ?f (docs c)).
            snd p \<noteq> None \<and> snd p = snd p' \<longrightarrow> fst p = fst p')"
    by (simp only: wf_iff)
  then show ?thesis
    by (simp only: wf_iff assms(1))
qed

lemma store_wf_subset:
  assumes "set (docs c') \<subseteq> set (docs c)" and "store_wf c"
  shows "store_wf c'"
  using assms unfolding store_wf_def list_all_iff by blast

lemma store_wf_append:
  assumes "store_wf c" and "docs c' = docs c @ [doc]"
    and "doc_field doc ''id'' \<noteq> None"
    and "\<forall>d\<in>set (docs c). doc_field d ''location_id'' \<noteq> doc_field doc ''location_id''"
  shows "store_wf c'"
  using assms unfolding store_wf_def list_all_iff by (simp; metis)


lemma delete_location_docs:
  assumes "delete_location lib req c = (r, c')"
  shows "set (docs c') \<subseteq> set (docs c)"
  using assms
  by (auto simp: delete_location_def delete_location_try_def raising_def delete_item_def Let_def
        split: sum.splits list.splits prod.splits if_splits)

lemma replace_item_fields:
  assumes "replace_item b b c = (res, c')"
  shows "map (\<lambda>d. (doc_field d ''id'', doc_field d ''location_id'')) (docs c')
       = map (\<lambda>d. (doc_field d ''id'', doc_field d ''location_id'')) (docs c)"
  using assms
  by (auto simp: replace_item_def Let_def same_item_def split: option.splits if_splits)

lemma edit_location_fields:
  assumes "edit_location lib req location_schema c = (r, c')"
  shows "map (\<lambda>d. (doc_field d ''id'', doc_field d ''location_id'')) (docs c')
       = map (\<lambda>d. (doc_field d ''id'', doc_field d ''location_id'')) (docs c)"
  using assms
  by (auto simp: edit_location_def edit_location_try_def raising_def
        split: sum.splits list.splits prod.splits if_splits validation.splits
        dest: replace_item_fields)

lemma add_fields_keeps:
  "add_fields location_schema items nd = Inr nd' \<Longrightarrow> k \<in> fst ` set nd
   \<Longrightarrow> map_of nd' k = map_of nd k"
proof (induction items arbitrary: nd)
  case Nil
  then show ?case by simp
next
  case (Cons item items)
  obtain key val where item: "item = (key, val)" by (cases item)
  show ?case
  proof (cases "key \<in> fst ` set nd")
    case True
    with Cons item show ?thesis by simp
  next
    case False
    with Cons.prems item obtain props declared where
      step: "add_fields location_schema items (if declared then dict_set nd key val else nd) = Inr nd'"
      by (auto simp: and_then_def split: sum.splits)
    from False Cons.prems(2) have "k \<noteq> key" by auto
    with Cons.IH [OF step] Cons.prems(2) show ?thesis
      by (cases declared) (simp_all add: keys_dict_set map_of_dict_set)
  qed
qed

lemma create_item_docs:
  assumes "create_item doc c = (res, c')"
  shows "docs c' = docs c \<or> docs c' = docs c @ [doc] \<and> doc_field doc ''id'' \<noteq> None"
  using assms by (auto simp: create_item_def Let_def split: option.splits if_splits)

lemma create_location_docs:
  assumes "create_location lib req location_schema c = (r, c')"
  shows "docs c' = docs c
     \<or> (\<exists>doc. docs c' = docs c @ [doc] \<and> doc_field doc ''id'' \<noteq> None
          \<and> doc_field doc ''location_id'' = Some (JStr (uuid4 lib 0)))"
proof (cases "docs c' = docs c")
  case True
  then show ?thesis by simp
next
  case False
  with assms obtain items rooms name events doc_id new res where
    added: "add_fields location_schema items
              [(''id'', JStr doc_id), (''location_id'', JStr (uuid4 lib 0)),
               (''location_name'', name), (''events_ids'', events), (''rooms'', rooms)] = Inr new"
    and created: "create_item (JObj new) c = (res, c')"
    by (auto simp: create_location_def create_location_try_def raising_def Let_def
          split: sum.splits list.splits prod.splits if_splits validation.splits)
  from add_fields_keeps [OF added, of "''location_id''"]
  have "map_of new ''location_id'' = Some (JStr (uuid4 lib 0))"
    by simp
  with create_item_docs [OF created] False show ?thesis
    by auto
qed

lemma store_wf_preserved:
  assumes "store_wf c"
  shows "store_wf (snd (delete_location lib req c))"
    and "store_wf (snd (get_location lib req c))"
    and "store_wf (snd (edit_location lib req location_schema c))"
    and "\<forall>d\<in>set (docs c). doc_field d ''location_id'' \<noteq> Some (JStr (uuid4 lib 0))
         \<Longrightarrow> store_wf (snd (create_location lib req location_schema c))"
proof -
  show "store_wf (snd (delete_location lib req c))"
    using delete_location_docs [of lib req c] assms
    by (cases "delete_location lib req c") (auto intro: store_wf_subset)
  show "store_wf (snd (get_location lib req c))"
    using assms by (simp add: get_location_frame)
  show "store_wf (snd (edit_location lib req location_schema c))"
    using edit_location_fields [of lib req location_schema c] assms
    by (cases "edit_location lib req location_schema c") (auto intro: store_wf_fields)
  assume fresh: "\<forall>d\<in>set (docs c). doc_field d ''location_id'' \<noteq> Some (JStr (uuid4 lib 0))"
  obtain r c' where run: "create_location lib req location_schema c = (r, c')"
    by (cases "create_location lib req location_schema c")
  from create_location_docs [OF run] have "store_wf c'"
  proof
    assume "docs c' = docs c"
    then show ?thesis using assms by (auto intro: store_wf_subset)
  next
    assume "\<exists>doc. docs c' = docs c @ [doc] \<and> doc_field doc ''id'' \<noteq> None
          \<and> doc_field doc ''location_id'' = Some (JStr (uuid4 lib 0))"
    then obtain doc where "docs c' = docs c @ [doc]" "doc_field doc ''id'' \<noteq> None"
      "doc_field doc ''location_id'' = Some (JStr (uuid4 lib 0))"
      by blast
    with assms fresh show ?thesis
      by (intro store_wf_append [of c c' doc]) simp_all
  qed
  then show "store_wf (snd (create_location lib req location_schema c))"
    by (simp add: run)
qed

end
